theory Spec2Isabelle
  imports Complex_Main
begin

section \<open>Python values used by the scrapers\<close>

subsection \<open>Strings\<close>

text \<open>
  Strings are lists of characters, a character being a code point below 256 (Latin-1).
  \<open>str.isspace\<close> holds of tab, line feed, vertical tab, form feed, carriage return, the
  four separators 0x1C..0x1F, space, NEL and the no-break space; \<open>str.lower\<close> maps the
  letters A..Z and the capital letters 0xC0..0xDE (the multiplication sign 0xD7 apart) to
  the letter 0x20 above.
\<close>

definition isspace :: "char \<Rightarrow> bool" where
  "isspace c = (of_char c \<in> {9, 10, 11, 12, 13, 28, 29, 30, 31, 32, 133, 160 :: nat})"

definition py_strip :: "string \<Rightarrow> string" where
  "py_strip s = rev (dropWhile isspace (rev (dropWhile isspace s)))"

definition latin1_capitals :: string where
  "latin1_capitals =
     [CHR 0xC0, CHR 0xC1, CHR 0xC2, CHR 0xC3, CHR 0xC4, CHR 0xC5, CHR 0xC6, CHR 0xC7,
      CHR 0xC8, CHR 0xC9, CHR 0xCA, CHR 0xCB, CHR 0xCC, CHR 0xCD, CHR 0xCE, CHR 0xCF,
      CHR 0xD0, CHR 0xD1, CHR 0xD2, CHR 0xD3, CHR 0xD4, CHR 0xD5, CHR 0xD6, CHR 0xD8,
      CHR 0xD9, CHR 0xDA, CHR 0xDB, CHR 0xDC, CHR 0xDD, CHR 0xDE]"

definition latin1_smalls :: string where
  "latin1_smalls =
     [CHR 0xE0, CHR 0xE1, CHR 0xE2, CHR 0xE3, CHR 0xE4, CHR 0xE5, CHR 0xE6, CHR 0xE7,
      CHR 0xE8, CHR 0xE9, CHR 0xEA, CHR 0xEB, CHR 0xEC, CHR 0xED, CHR 0xEE, CHR 0xEF,
      CHR 0xF0, CHR 0xF1, CHR 0xF2, CHR 0xF3, CHR 0xF4, CHR 0xF5, CHR 0xF6, CHR 0xF8,
      CHR 0xF9, CHR 0xFA, CHR 0xFB, CHR 0xFC, CHR 0xFD, CHR 0xFE]"

definition lower_char :: "char \<Rightarrow> char" where
  "lower_char c =
     (case map_of (zip (''ABCDEFGHIJKLMNOPQRSTUVWXYZ'' @ latin1_capitals)
                       (''abcdefghijklmnopqrstuvwxyz'' @ latin1_smalls)) c of
        None \<Rightarrow> c
      | Some l \<Rightarrow> l)"

definition py_lower :: "string \<Rightarrow> string" where
  "py_lower s = map lower_char s"

definition startswith :: "string \<Rightarrow> string \<Rightarrow> bool" where
  "startswith s p = (take (length p) s = p)"

text \<open>\<open>contains s sub\<close> is Python's \<open>sub in s\<close> on strings.\<close>

fun contains :: "string \<Rightarrow> string \<Rightarrow> bool" where
  "contains [] sub = (sub = [])"
| "contains (c # cs) sub = (startswith (c # cs) sub \<or> contains cs sub)"

text \<open>\<open>s.replace('\n', ' ')\<close>.\<close>

definition replace_newlines :: "string \<Rightarrow> string" where
  "replace_newlines s = map (\<lambda>c. if c = CHR 0x0A then CHR '' '' else c) s"

text \<open>\<open>s.split('\n')\<close>: always at least one piece.\<close>

fun split_lines :: "string \<Rightarrow> string list" where
  "split_lines [] = [[]]"
| "split_lines (c # cs) =
     (if c = CHR 0x0A then [] # split_lines cs
      else (case split_lines cs of [] \<Rightarrow> [[c]] | l # ls \<Rightarrow> (c # l) # ls))"

subsection \<open>JSON values, as \<open>json.loads\<close> returns them\<close>

text \<open>
  Numbers are only ever tested for truth by the scrapers, so one constructor stands for
  \<open>int\<close> and \<open>float\<close>. An object is the \<open>dict\<close> after loading; \<open>dict.get\<close> reads
  the first binding of a key.
\<close>

datatype json =
    JNull
  | JBool bool
  | JNum int
  | JStr string
  | JArr "json list"
  | JObj "(string \<times> json) list"

text \<open>Python's truth value of an object (\<open>if x:\<close>, \<open>x or y\<close>).\<close>

fun truthy :: "json \<Rightarrow> bool" where
  "truthy JNull = False"
| "truthy (JBool b) = b"
| "truthy (JNum n) = (n \<noteq> 0)"
| "truthy (JStr s) = (s \<noteq> [])"
| "truthy (JArr xs) = (xs \<noteq> [])"
| "truthy (JObj kvs) = (kvs \<noteq> [])"

text \<open>\<open>d.get(k, default)\<close>; \<open>d.get(k)\<close> is \<open>dict_get d k JNull\<close>.\<close>

definition dict_get :: "(string \<times> json) list \<Rightarrow> string \<Rightarrow> json \<Rightarrow> json" where
  "dict_get d k dflt = (case map_of d k of None \<Rightarrow> dflt | Some v \<Rightarrow> v)"

datatype py_error = AttributeError | TypeError | JSONDecodeError | ValueError

section \<open>The collaborators: DOM queries, HTTP, urllib, json, the clock\<close>

text \<open>
  A parsed document is the answers BeautifulSoup gives to the queries the scrapers make.
\<close>

record anchor =
  href :: string
  link_text :: string

record container =
  list_items :: "string list"
  text_lines :: string

record soup =
  a_tags :: "anchor list"
  ld_json :: "string option list"
  h1 :: "string option"
  og_title :: "string option"
  select_one :: "string \<Rightarrow> container option"
  select_cards :: "string \<Rightarrow> anchor list list"

text \<open>
  \<open>a_tags\<close>: \<open>find_all('a', href=True)\<close>, with \<open>get_text(strip=True).lower()\<close> left to the
  caller; \<open>ld_json\<close>: the \<open>.string\<close> of every \<open>application/ld+json\<close> script, in document
  order; \<open>h1\<close>: the \<open>.text\<close> of the first heading; \<open>og_title\<close>: \<open>get('content', '')\<close>
  of the \<open>og:title\<close> meta tag; \<open>select_one sel\<close>: the first element matching \<open>sel\<close>, as
  the \<open>get_text(strip=True)\<close> of each of its \<open>li\<close>/\<open>p\<close> descendants and its own
  \<open>get_text('\n', strip=True)\<close>; \<open>select_cards sel\<close>: for every element matching
  \<open>sel\<close>, its \<open>find_all('a', href=True)\<close>.
\<close>

record response =
  status_code :: nat
  content_type :: "string option"
  html :: soup

datatype reply = RequestException | Response response

record urlparts =
  scheme :: string
  netloc :: string
  path :: string

text \<open>
  The library functions and the network are parameters: \<open>requests_get url t\<close> is what a
  GET of \<open>url\<close> issued at time \<open>t\<close> does, the seconds it takes and either an exception
  of \<open>requests\<close> (connection error, timeout) or the response. \<open>urlparse\<close> and
  \<open>urljoin\<close> raise \<open>ValueError\<close> on some strings (an authority with an unmatched
  bracket): \<open>urlparse_raises\<close> and \<open>urljoin_raises\<close> say on which, and the values of
  \<open>urlparse\<close> and \<open>urljoin\<close> count only elsewhere. A Python set of strings is
  carried as the list \<open>l\<close> of its elements, each once, in the order they were added;
  \<open>list_of_set l\<close> is what \<open>list(s)\<close> gives for it, in an order Python does not fix.
\<close>

record ext =
  urlparse :: "string \<Rightarrow> urlparts"
  urljoin :: "string \<Rightarrow> string \<Rightarrow> string"
  json_loads :: "string \<Rightarrow> json option"
  requests_get :: "string \<Rightarrow> real \<Rightarrow> real \<times> reply"
  urlparse_raises :: "string \<Rightarrow> bool"
  urljoin_raises :: "string \<Rightarrow> string \<Rightarrow> bool"
  list_of_set :: "string list \<Rightarrow> string list"

text \<open>\<open>list(s)\<close> holds the elements of \<open>s\<close>, as many as \<open>s\<close> has.\<close>

definition enumerates :: "ext \<Rightarrow> bool" where
  "enumerates X =
     (\<forall>l. length (list_of_set X l) = length l \<and> set (list_of_set X l) = set l)"

text \<open>The process state: the clock and the two module-level variables.\<close>

record world =
  clock :: real
  domain_timers :: "string \<rightharpoonup> real"
  seen_urls :: "string set"

definition time_sleep :: "real \<Rightarrow> world \<Rightarrow> world" where
  "time_sleep d w = w\<lparr>clock := clock w + d\<rparr>"

definition http_get :: "ext \<Rightarrow> string \<Rightarrow> world \<Rightarrow> reply \<times> world" where
  "http_get X url w =
     (case requests_get X url (clock w) of (d, r) \<Rightarrow> (r, w\<lparr>clock := clock w + d\<rparr>))"

text \<open>\<open>Response.raise_for_status\<close> raises for the 4xx and 5xx codes.\<close>

definition raise_for_status :: "response \<Rightarrow> bool" where
  "raise_for_status res = (400 \<le> status_code res \<and> status_code res < 600)"

section \<open>The rate limiter\<close>

text \<open>
  The block every \<open>make_request\<close> starts with, on the key \<open>domain\<close>:
  \<^verbatim>\<open>
    now = time.time()
    if domain in domain_timers:
        elapsed = now - domain_timers[domain]
        if elapsed < RATE_LIMIT:
            time.sleep(RATE_LIMIT - elapsed)
  \<close>
\<close>

definition rate_limit_wait :: "real \<Rightarrow> string \<Rightarrow> world \<Rightarrow> world" where
  "rate_limit_wait limit domain w =
     (let now = clock w in
      case domain_timers w domain of
        None \<Rightarrow> w
      | Some stamp \<Rightarrow>
          (let elapsed = now - stamp in
           if elapsed < limit then time_sleep (limit - elapsed) w else w))"

subsection \<open>scrapermod.py\<close>

definition RATE_LIMIT_scrapermod :: real where
  "RATE_LIMIT_scrapermod = 2"

definition normalize_domain :: "ext \<Rightarrow> string \<Rightarrow> string" where
  "normalize_domain X url =
     (let domain = py_lower (netloc (urlparse X url)) in
      if startswith domain ''www.'' then drop 4 domain else domain)"

definition make_request_scrapermod :: "ext \<Rightarrow> string \<Rightarrow> world \<Rightarrow> response option \<times> world" where
  "make_request_scrapermod X url w =
     (let domain = normalize_domain X url;
          w1 = rate_limit_wait RATE_LIMIT_scrapermod domain w
      in case http_get X url w1 of
           (RequestException, w2) \<Rightarrow> (None, w2)
         | (Response res, w2) \<Rightarrow>
             (let w3 = w2\<lparr>domain_timers := (domain_timers w2)(domain \<mapsto> clock w2)\<rparr> in
              if raise_for_status res then (None, w3)
              else if \<not> contains (py_lower (case content_type res of None \<Rightarrow> [] | Some c \<Rightarrow> c))
                         ''text/html''
              then (None, w3)
              else (Some res, w3)))"

text \<open>The time at which \<open>make_request(url)\<close>, called in \<open>w\<close>, issues its GET.\<close>

definition sent_at_scrapermod :: "ext \<Rightarrow> string \<Rightarrow> world \<Rightarrow> real" where
  "sent_at_scrapermod X url w =
     clock (rate_limit_wait RATE_LIMIT_scrapermod (normalize_domain X url) w)"

subsection \<open>scraper.py\<close>

definition RATE_LIMIT_scraper :: real where
  "RATE_LIMIT_scraper = 3 / 2"

definition make_request_scraper :: "ext \<Rightarrow> string \<Rightarrow> world \<Rightarrow> response option \<times> world" where
  "make_request_scraper X url w =
     (let domain = netloc (urlparse X url);
          w1 = rate_limit_wait RATE_LIMIT_scraper domain w
      in case http_get X url w1 of
           (RequestException, w2) \<Rightarrow> (None, w2)
         | (Response res, w2) \<Rightarrow>
             (let w3 = w2\<lparr>domain_timers := (domain_timers w2)(domain \<mapsto> clock w2)\<rparr> in
              if raise_for_status res then (None, w3) else (Some res, w3)))"

section \<open>scrapermod.py: link discovery, extraction, main loop\<close>

definition recipe_keywords :: "string list" where
  "recipe_keywords = [''recipe'', ''recipes'', ''cook'', ''dish'', ''receipt'', ''food'']"

text \<open>
  \<open>make_request\<close> as its callers see it: \<open>normalize_domain(url)\<close>, its first statement,
  stands outside the \<open>try\<close> and raises \<open>ValueError\<close> when \<open>urlparse\<close> rejects the URL.
\<close>

definition request_scrapermod ::
  "ext \<Rightarrow> string \<Rightarrow> world \<Rightarrow> (py_error + response option) \<times> world" where
  "request_scrapermod X url w =
     (if urlparse_raises X url then (Inl ValueError, w)
      else (case make_request_scrapermod X url w of (res, w1) \<Rightarrow> (Inr res, w1)))"

text \<open>
  The loop of \<open>get_links\<close> over the anchors. \<open>links\<close> is the Python set in the order of
  its insertions; \<open>seen\<close> is the module-level \<open>seen_urls\<close>, which keeps what was added
  when \<open>urljoin\<close> or \<open>urlparse\<close> raises on a later anchor.
\<close>

fun get_links_loop ::
  "ext \<Rightarrow> string \<Rightarrow> nat \<Rightarrow> anchor list \<Rightarrow> string list \<Rightarrow> string set
     \<Rightarrow> (py_error + string list) \<times> string set" where
  "get_links_loop X site_url max_links [] links seen = (Inr links, seen)"
| "get_links_loop X site_url max_links (a # rest) links seen =
     (let h = py_strip (href a) in
      if h = [] \<or> startswith h ''javascript:'' \<or> startswith h ''mailto:'' \<or> startswith h ''tel:''
      then get_links_loop X site_url max_links rest links seen
      else if urljoin_raises X site_url h then (Inl ValueError, seen)
      else
        (let full_url = urljoin X site_url h in
         if urlparse_raises X full_url then (Inl ValueError, seen)
         else
           (let parsed = urlparse X full_url
            in if scheme parsed \<noteq> ''http'' \<and> scheme parsed \<noteq> ''https''
               then get_links_loop X site_url max_links rest links seen
               else if normalize_domain X full_url \<noteq> normalize_domain X site_url
               then get_links_loop X site_url max_links rest links seen
               else
                 (let accept = (list_ex (contains (py_lower (path parsed))) recipe_keywords
                                \<and> full_url \<notin> seen);
                      links' = (if accept then links @ [full_url] else links);
                      seen' = (if accept then insert full_url seen else seen)
                  in if max_links \<le> length links' then (Inr links', seen')
                     else get_links_loop X site_url max_links rest links' seen'))))"

definition get_links_scrapermod ::
  "ext \<Rightarrow> string \<Rightarrow> nat \<Rightarrow> world \<Rightarrow> (py_error + string list) \<times> world" where
  "get_links_scrapermod X site_url max_links w =
     (case request_scrapermod X site_url w of
        (Inl e, w1) \<Rightarrow> (Inl e, w1)
      | (Inr None, w1) \<Rightarrow> (Inr [], w1)
      | (Inr (Some res), w1) \<Rightarrow>
          (case get_links_loop X site_url max_links (a_tags (html res)) [] (seen_urls w1) of
             (Inl e, seen) \<Rightarrow> (Inl e, w1\<lparr>seen_urls := seen\<rparr>)
           | (Inr links, seen) \<Rightarrow> (Inr (list_of_set X links), w1\<lparr>seen_urls := seen\<rparr>)))"

text \<open>
  The recipe dict of \<open>scrapermod.py\<close> and \<open>scraper.py\<close>. Its values are whatever the
  JSON-LD block holds: nothing checks that a name is a string or an ingredient list a list.
\<close>

record recipe =
  source_url :: string
  name :: json
  ingredients :: json
  instructions :: "json list"

definition empty_recipe :: "string \<Rightarrow> recipe" where
  "empty_recipe url = \<lparr>source_url = url, name = JStr [], ingredients = JArr [], instructions = []\<rparr>"

text \<open>The loop over \<open>recipeInstructions\<close> when it is a list.\<close>

fun step_texts :: "json list \<Rightarrow> json list" where
  "step_texts [] = []"
| "step_texts (JObj d # steps) =
     (if dict_get d ''@type'' JNull = JStr ''HowToStep''
      then dict_get d ''text'' (JStr []) # step_texts steps
      else step_texts steps)"
| "step_texts (JStr s # steps) = JStr s # step_texts steps"
| "step_texts (_ # steps) = step_texts steps"

definition instructions_of :: "json \<Rightarrow> json list" where
  "instructions_of steps =
     (case steps of JStr s \<Rightarrow> [JStr s] | JArr xs \<Rightarrow> step_texts xs | _ \<Rightarrow> [])"

text \<open>What one item of type Recipe or HowTo writes into the dict.\<close>

definition read_item :: "(string \<times> json) list \<Rightarrow> recipe \<Rightarrow> recipe" where
  "read_item item r =
     (let nm = (if truthy (dict_get item ''name'' JNull) then dict_get item ''name'' JNull
                else dict_get item ''headline'' (JStr []));
          r1 = (if truthy nm then r\<lparr>name := nm\<rparr> else r);
          ings = dict_get item ''recipeIngredient'' (JArr []);
          r2 = (if truthy ings then r1\<lparr>ingredients := ings\<rparr> else r1)
      in r2\<lparr>instructions := instructions_of (dict_get item ''recipeInstructions'' (JArr []))\<rparr>)"

datatype flow = Return recipe | Next recipe

fun items_loop :: "json list \<Rightarrow> recipe \<Rightarrow> flow" where
  "items_loop [] r = Next r"
| "items_loop (JObj item # items) r =
     (if dict_get item ''@type'' JNull = JStr ''Recipe'' \<or> dict_get item ''@type'' JNull = JStr ''HowTo''
      then (let r' = read_item item r in
            if truthy (ingredients r') \<and> instructions r' \<noteq> [] then Return r'
            else items_loop items r')
      else items_loop items r)"
| "items_loop (_ # items) r = items_loop items r"

text \<open>\<open>for item in x\<close> on a JSON value: a list, the keys of a dict, the characters of a string.\<close>

definition iterate :: "json \<Rightarrow> py_error + json list" where
  "iterate x =
     (case x of
        JArr xs \<Rightarrow> Inr xs
      | JObj d \<Rightarrow> Inr (map (\<lambda>kv. JStr (fst kv)) d)
      | JStr s \<Rightarrow> Inr (map (\<lambda>c. JStr [c]) s)
      | _ \<Rightarrow> Inl TypeError)"

text \<open>
  The part of the \<open>try\<close> block before the loop over the items: everything that can raise.
\<close>

definition script_items :: "ext \<Rightarrow> string option \<Rightarrow> py_error + json list" where
  "script_items X script_string =
     (case script_string of
        None \<Rightarrow> Inl AttributeError
      | Some s \<Rightarrow>
          (let stripped = py_strip s;
               data_str = (if startswith stripped ''<!--''
                           then py_strip (drop 4 (take (length stripped - 3) stripped))
                           else stripped)
           in case json_loads X data_str of
                None \<Rightarrow> Inl JSONDecodeError
              | Some data \<Rightarrow>
                  (case data of
                     JArr items \<Rightarrow> Inr items
                   | JObj d \<Rightarrow> (case map_of d ''@graph'' of Some g \<Rightarrow> iterate g | None \<Rightarrow> Inr [data])
                   | JStr t \<Rightarrow> (if contains t ''@graph'' then Inl TypeError else Inr [data])
                   | _ \<Rightarrow> Inl TypeError)))"

text \<open>
  The loop over the script tags: an exception ends the work on that tag only
  (\<open>except Exception\<close> inside the loop logs it), and the dict keeps what earlier items wrote.
\<close>

fun scripts_loop :: "ext \<Rightarrow> string option list \<Rightarrow> recipe \<Rightarrow> recipe option" where
  "scripts_loop X [] r = None"
| "scripts_loop X (s # ss) r =
     (case script_items X s of
        Inl e \<Rightarrow> scripts_loop X ss r
      | Inr items \<Rightarrow>
          (case items_loop items r of
             Return r' \<Rightarrow> Some r'
           | Next r' \<Rightarrow> scripts_loop X ss r'))"

definition parse_recipe_page :: "ext \<Rightarrow> string \<Rightarrow> soup \<Rightarrow> recipe option" where
  "parse_recipe_page X url page = scripts_loop X (ld_json page) (empty_recipe url)"

definition parse_recipe_scrapermod ::
  "ext \<Rightarrow> string \<Rightarrow> world \<Rightarrow> (py_error + recipe option) \<times> world" where
  "parse_recipe_scrapermod X url w =
     (case request_scrapermod X url w of
        (Inl e, w1) \<Rightarrow> (Inl e, w1)
      | (Inr None, w1) \<Rightarrow> (Inr None, w1)
      | (Inr (Some res), w1) \<Rightarrow> (Inr (parse_recipe_page X url (html res)), w1))"

text \<open>
  \<open>recipe['name'][:50]\<close> in the log line after the append: a string or a list can be
  sliced, a number or a truth value raises \<open>TypeError\<close>, and so does a dict (an unhashable
  slice; from Python 3.12 on a \<open>KeyError\<close>).
\<close>

definition sliceable :: "json \<Rightarrow> bool" where
  "sliceable x = (case x of JStr s \<Rightarrow> True | JArr xs \<Rightarrow> True | _ \<Rightarrow> False)"

text \<open>
  \<open>main\<close>: the loop over the links of one site, left by its end, by the \<open>break\<close> at the
  cap \<open>MAX_TOTAL_RECIPES\<close> (the parameter \<open>cap\<close>) or by an exception, which it returns
  beside the list and the state it leaves.
\<close>

fun links_loop_scrapermod ::
  "ext \<Rightarrow> nat \<Rightarrow> string list \<Rightarrow> recipe list \<Rightarrow> world
     \<Rightarrow> (recipe list \<times> world) \<times> py_error option" where
  "links_loop_scrapermod X cap [] all_recipes w = ((all_recipes, w), None)"
| "links_loop_scrapermod X cap (link # links) all_recipes w =
     (if cap \<le> length all_recipes then ((all_recipes, w), None)
      else (case parse_recipe_scrapermod X link w of
              (Inl e, w1) \<Rightarrow> ((all_recipes, w1), Some e)
            | (Inr None, w1) \<Rightarrow> links_loop_scrapermod X cap links all_recipes w1
            | (Inr (Some r), w1) \<Rightarrow>
                if sliceable (name r)
                then links_loop_scrapermod X cap links (all_recipes @ [r]) w1
                else ((all_recipes @ [r], w1), Some TypeError)))"

text \<open>
  The \<open>try\<close> block of one site ends by reaching its end, by \<open>continue\<close> (no links), or by
  an exception.
\<close>

datatype ending = Completed | Continued | Raised py_error

definition try_site_scrapermod ::
  "ext \<Rightarrow> nat \<Rightarrow> nat \<Rightarrow> string \<Rightarrow> recipe list \<Rightarrow> world \<Rightarrow> (recipe list \<times> world) \<times> ending" where
  "try_site_scrapermod X per_site cap site all_recipes w =
     (case get_links_scrapermod X site per_site w of
        (Inl e, w1) \<Rightarrow> ((all_recipes, w1), Raised e)
      | (Inr links, w1) \<Rightarrow>
          if links = [] then ((all_recipes, w1), Continued)
          else (case links_loop_scrapermod X cap links all_recipes w1 of
                  (state, None) \<Rightarrow> (state, Completed)
                | (state, Some e) \<Rightarrow> (state, Raised e)))"

text \<open>
  The loop over the sites: \<open>continue\<close> skips the test of the cap below the \<open>try\<close>; the
  \<open>except\<close> branch logs, sleeps five seconds and goes on to that test.
\<close>

fun sites_loop_scrapermod ::
  "ext \<Rightarrow> nat \<Rightarrow> nat \<Rightarrow> string list \<Rightarrow> recipe list \<Rightarrow> world \<Rightarrow> recipe list \<times> world" where
  "sites_loop_scrapermod X per_site cap [] all_recipes w = (all_recipes, w)"
| "sites_loop_scrapermod X per_site cap (site # sites) all_recipes w =
     (case try_site_scrapermod X per_site cap site all_recipes w of
        ((all_recipes', w1), Continued) \<Rightarrow> sites_loop_scrapermod X per_site cap sites all_recipes' w1
      | ((all_recipes', w1), Completed) \<Rightarrow>
          if cap \<le> length all_recipes' then (all_recipes', w1)
          else sites_loop_scrapermod X per_site cap sites all_recipes' w1
      | ((all_recipes', w1), Raised e) \<Rightarrow>
          if cap \<le> length all_recipes' then (all_recipes', time_sleep 5 w1)
          else sites_loop_scrapermod X per_site cap sites all_recipes' (time_sleep 5 w1))"

definition MAX_RECIPES_PER_SITE :: nat where
  "MAX_RECIPES_PER_SITE = 10"

definition MAX_TOTAL_RECIPES :: nat where
  "MAX_TOTAL_RECIPES = 500"

definition main_scrapermod :: "ext \<Rightarrow> string list \<Rightarrow> world \<Rightarrow> recipe list \<times> world" where
  "main_scrapermod X websites w =
     sites_loop_scrapermod X MAX_RECIPES_PER_SITE MAX_TOTAL_RECIPES websites [] w"

definition sent_at_scraper :: "ext \<Rightarrow> string \<Rightarrow> world \<Rightarrow> real" where
  "sent_at_scraper X url w = clock (rate_limit_wait RATE_LIMIT_scraper (netloc (urlparse X url)) w)"

section \<open>scraper.py: link discovery, extraction, main loop\<close>

fun get_links_loop_scraper :: "string \<Rightarrow> nat \<Rightarrow> anchor list \<Rightarrow> string list \<Rightarrow> string list" where
  "get_links_loop_scraper domain max_links [] links = links"
| "get_links_loop_scraper domain max_links (a # rest) links =
     (let h = (if startswith (href a) ''/'' then ''https://'' @ domain @ href a else href a);
          links' = (if contains (py_lower h) ''recipe'' \<and> contains h domain \<and> h \<notin> set links
                    then links @ [h] else links)
      in if max_links \<le> length links' then links'
         else get_links_loop_scraper domain max_links rest links')"

text \<open>
  \<open>make_request\<close> of \<open>scraper.py\<close> as its callers see it: \<open>urlparse(url).netloc\<close> stands
  outside the \<open>try\<close>.
\<close>

definition request_scraper ::
  "ext \<Rightarrow> string \<Rightarrow> world \<Rightarrow> (py_error + response option) \<times> world" where
  "request_scraper X url w =
     (if urlparse_raises X url then (Inl ValueError, w)
      else (case make_request_scraper X url w of (res, w1) \<Rightarrow> (Inr res, w1)))"

definition get_links_scraper ::
  "ext \<Rightarrow> string \<Rightarrow> nat \<Rightarrow> world \<Rightarrow> (py_error + string list) \<times> world" where
  "get_links_scraper X site_url max_links w =
     (case request_scraper X site_url w of
        (Inl e, w1) \<Rightarrow> (Inl e, w1)
      | (Inr None, w1) \<Rightarrow> (Inr [], w1)
      | (Inr (Some res), w1) \<Rightarrow>
          (Inr (list_of_set X
                  (get_links_loop_scraper (netloc (urlparse X site_url)) max_links
                     (a_tags (html res)) [])), w1))"

text \<open>\<open>next((i for i in data if i.get('@type') == 'Recipe'), {})\<close>\<close>

fun first_recipe :: "json list \<Rightarrow> py_error + json" where
  "first_recipe [] = Inr (JObj [])"
| "first_recipe (JObj d # xs) =
     (if dict_get d ''@type'' JNull = JStr ''Recipe'' then Inr (JObj d) else first_recipe xs)"
| "first_recipe (_ # xs) = Inl AttributeError"

text \<open>
  The body of the \<open>try\<close> of \<open>parse_recipe\<close> once a script tag was found. Every statement
  that can raise comes before the first write to the dict.
\<close>

definition read_script_scraper :: "ext \<Rightarrow> string option \<Rightarrow> recipe \<Rightarrow> py_error + recipe" where
  "read_script_scraper X script_string r =
     (case script_string of
        None \<Rightarrow> Inl AttributeError
      | Some s \<Rightarrow>
          (case json_loads X (py_strip s) of
             None \<Rightarrow> Inl JSONDecodeError
           | Some loaded \<Rightarrow>
               (case (case loaded of JArr xs \<Rightarrow> first_recipe xs | _ \<Rightarrow> Inr loaded) of
                  Inl e \<Rightarrow> Inl e
                | Inr (JObj d) \<Rightarrow>
                    (if dict_get d ''@type'' JNull = JStr ''Recipe''
                     then Inr (r\<lparr>name := dict_get d ''name'' (JStr []),
                                 ingredients := dict_get d ''recipeIngredient'' (JArr []),
                                 instructions :=
                                   (case dict_get d ''recipeInstructions'' (JArr []) of
                                      JArr steps \<Rightarrow>
                                        map (\<lambda>st. case st of JObj sd \<Rightarrow> dict_get sd ''text'' (JStr [])
                                                             | _ \<Rightarrow> st) steps
                                    | _ \<Rightarrow> instructions r)\<rparr>)
                     else Inr r)
                | Inr _ \<Rightarrow> Inl AttributeError)))"

definition parse_recipe_page_scraper :: "ext \<Rightarrow> string \<Rightarrow> soup \<Rightarrow> recipe option" where
  "parse_recipe_page_scraper X url page =
     (let r0 = empty_recipe url;
          r = (case ld_json page of
                 [] \<Rightarrow> r0
               | s # _ \<Rightarrow> (case read_script_scraper X s r0 of Inl e \<Rightarrow> r0 | Inr r' \<Rightarrow> r'))
      in if truthy (ingredients r) \<or> instructions r \<noteq> [] then Some r else None)"

definition parse_recipe_scraper ::
  "ext \<Rightarrow> string \<Rightarrow> world \<Rightarrow> (py_error + recipe option) \<times> world" where
  "parse_recipe_scraper X url w =
     (case request_scraper X url w of
        (Inl e, w1) \<Rightarrow> (Inl e, w1)
      | (Inr None, w1) \<Rightarrow> (Inr None, w1)
      | (Inr (Some res), w1) \<Rightarrow> (Inr (parse_recipe_page_scraper X url (html res)), w1))"

text \<open>
  \<open>main\<close> of \<open>scraper.py\<close>: the cap is tested after the append; an exception leaves the
  links of the site, and the \<open>except\<close> branch only logs.
\<close>

fun links_loop_scraper ::
  "ext \<Rightarrow> nat \<Rightarrow> string list \<Rightarrow> recipe list \<Rightarrow> world
     \<Rightarrow> (recipe list \<times> world) \<times> py_error option" where
  "links_loop_scraper X cap [] all_recipes w = ((all_recipes, w), None)"
| "links_loop_scraper X cap (link # links) all_recipes w =
     (case parse_recipe_scraper X link w of
        (Inl e, w1) \<Rightarrow> ((all_recipes, w1), Some e)
      | (Inr res, w1) \<Rightarrow>
          (let all_recipes' = (case res of None \<Rightarrow> all_recipes | Some r \<Rightarrow> all_recipes @ [r])
           in if cap \<le> length all_recipes' then ((all_recipes', w1), None)
              else links_loop_scraper X cap links all_recipes' w1))"

definition try_site_scraper ::
  "ext \<Rightarrow> nat \<Rightarrow> nat \<Rightarrow> string \<Rightarrow> recipe list \<Rightarrow> world \<Rightarrow> (recipe list \<times> world) \<times> ending" where
  "try_site_scraper X per_site cap site all_recipes w =
     (case get_links_scraper X site per_site w of
        (Inl e, w1) \<Rightarrow> ((all_recipes, w1), Raised e)
      | (Inr links, w1) \<Rightarrow>
          (case links_loop_scraper X cap links all_recipes w1 of
             (state, None) \<Rightarrow> (state, Completed)
           | (state, Some e) \<Rightarrow> (state, Raised e)))"

fun sites_loop_scraper ::
  "ext \<Rightarrow> nat \<Rightarrow> nat \<Rightarrow> string list \<Rightarrow> recipe list \<Rightarrow> world \<Rightarrow> recipe list \<times> world" where
  "sites_loop_scraper X per_site cap [] all_recipes w = (all_recipes, w)"
| "sites_loop_scraper X per_site cap (site # sites) all_recipes w =
     (case try_site_scraper X per_site cap site all_recipes w of
        ((all_recipes', w1), ended) \<Rightarrow>
          if cap \<le> length all_recipes' then (all_recipes', w1)
          else sites_loop_scraper X per_site cap sites all_recipes' w1)"

definition main_scraper :: "ext \<Rightarrow> string list \<Rightarrow> world \<Rightarrow> recipe list \<times> world" where
  "main_scraper X websites w =
     sites_loop_scraper X MAX_RECIPES_PER_SITE MAX_TOTAL_RECIPES websites [] w"

section \<open>scraperlist_of_recipes.py: extraction with per-field fallbacks, main loop\<close>


text \<open>
  \<open>json.loads(script.string)\<close> inside a \<open>try\<close> that catches \<open>JSONDecodeError\<close> and
  \<open>TypeError\<close> (\<open>script.string\<close> is \<open>None\<close>): both leave the field as it was. An
  \<open>AttributeError\<close> is not caught there and leaves \<open>extract_recipe_data\<close>.
\<close>

definition loads_script :: "ext \<Rightarrow> string option \<Rightarrow> json option" where
  "loads_script X script_string =
     (case script_string of None \<Rightarrow> None | Some s \<Rightarrow> json_loads X s)"

fun name_in_list :: "json list \<Rightarrow> py_error + json" where
  "name_in_list [] = Inr (JStr [])"
| "name_in_list (JObj d # items) =
     (if dict_get d ''@type'' JNull = JStr ''Recipe'' \<and> truthy (dict_get d ''name'' JNull)
      then Inr (dict_get d ''name'' JNull)
      else name_in_list items)"
| "name_in_list (_ # items) = Inl AttributeError"

definition ld_name :: "json option \<Rightarrow> py_error + json" where
  "ld_name loaded =
     (case loaded of
        Some (JArr items) \<Rightarrow> name_in_list items
      | Some (JObj d) \<Rightarrow>
          (if dict_get d ''@type'' JNull = JStr ''Recipe'' then Inr (dict_get d ''name'' (JStr []))
           else Inr (JStr []))
      | _ \<Rightarrow> Inr (JStr []))"

text \<open>\<open>[ing.strip() for ing in ingredients]\<close>\<close>

fun strip_each :: "json list \<Rightarrow> py_error + string list" where
  "strip_each [] = Inr []"
| "strip_each (JStr s # xs) =
     (case strip_each xs of Inl e \<Rightarrow> Inl e | Inr ys \<Rightarrow> Inr (py_strip s # ys))"
| "strip_each (_ # xs) = Inl AttributeError"

fun ingredients_in_list :: "json list \<Rightarrow> py_error + string list" where
  "ingredients_in_list [] = Inr []"
| "ingredients_in_list (JObj d # items) =
     (if dict_get d ''@type'' JNull = JStr ''Recipe'' \<and> truthy (dict_get d ''recipeIngredient'' JNull)
      then (case dict_get d ''recipeIngredient'' JNull of JArr ings \<Rightarrow> strip_each ings | _ \<Rightarrow> Inr [])
      else ingredients_in_list items)"
| "ingredients_in_list (_ # items) = Inl AttributeError"

definition ld_ingredients :: "json option \<Rightarrow> py_error + string list" where
  "ld_ingredients loaded =
     (case loaded of
        Some (JArr items) \<Rightarrow> ingredients_in_list items
      | Some (JObj d) \<Rightarrow>
          (if dict_get d ''@type'' JNull = JStr ''Recipe''
           then (case dict_get d ''recipeIngredient'' (JArr []) of
                   JArr ings \<Rightarrow> strip_each ings
                 | _ \<Rightarrow> Inr [])
           else Inr [])
      | _ \<Rightarrow> Inr [])"

fun instructions_in_list :: "json list \<Rightarrow> py_error + json list" where
  "instructions_in_list [] = Inr []"
| "instructions_in_list (JObj d # items) =
     (if dict_get d ''@type'' JNull = JStr ''Recipe'' \<and> truthy (dict_get d ''recipeInstructions'' JNull)
      then (case dict_get d ''recipeInstructions'' JNull of JArr steps \<Rightarrow> Inr (step_texts steps)
            | _ \<Rightarrow> Inr [])
      else instructions_in_list items)"
| "instructions_in_list (_ # items) = Inl AttributeError"

definition ld_instructions :: "json option \<Rightarrow> py_error + json list" where
  "ld_instructions loaded =
     (case loaded of
        Some (JArr items) \<Rightarrow> instructions_in_list items
      | Some (JObj d) \<Rightarrow>
          (if dict_get d ''@type'' JNull = JStr ''Recipe''
           then (case dict_get d ''recipeInstructions'' (JArr []) of
                   JArr steps \<Rightarrow> Inr (step_texts steps)
                 | JStr s \<Rightarrow> Inr [JStr s]
                 | _ \<Rightarrow> Inr [])
           else Inr [])
      | _ \<Rightarrow> Inr [])"

definition ingredient_selectors :: "string list" where
  \<open>ingredient_selectors =
     [''.ingredients'', ''.recipe-ingredients'', ''.ingredient'', ''.ingredients-list'',
      ''.recipe-ingred_txt'', ''.wprm-recipe-ingredient'', ''.ingredients-section'',
      ''[class*="ingredient"]'']\<close>

definition instruction_selectors :: "string list" where
  \<open>instruction_selectors =
     [''.instructions'', ''.recipe-steps'', ''.directions'', ''.recipe-instructions'',
      ''.wprm-recipe-instruction'', ''.instructions-section'', ''[class*="instruction"]'',
      ''[class*="direction"]'', ''[class*="step"]'']\<close>

text \<open>
  The selector fallback, the same loop for ingredients and instructions: the first
  selector whose container gives any text wins.
\<close>

fun from_selectors :: "(string \<Rightarrow> container option) \<Rightarrow> string list \<Rightarrow> string list" where
  "from_selectors sel [] = []"
| "from_selectors sel (s # ss) =
     (case sel s of
        None \<Rightarrow> from_selectors sel ss
      | Some c \<Rightarrow>
          (let found = filter (\<lambda>t. t \<noteq> []) (list_items c);
               found' = (if found = []
                         then (if text_lines c \<noteq> [] then split_lines (text_lines c) else [])
                         else found)
           in if found' \<noteq> [] then found' else from_selectors sel ss))"

record recipe_data =
  rd_name :: string
  rd_ingredients :: "string list"
  rd_instructions :: "string list"
  rd_source_url :: string

definition clean :: "string \<Rightarrow> string" where
  "clean s = py_strip (replace_newlines s)"

text \<open>\<open>[step.replace('\n', ' ').strip() for step in ...]\<close> on a list that may hold non-strings.\<close>

fun clean_each :: "json list \<Rightarrow> py_error + string list" where
  "clean_each [] = Inr []"
| "clean_each (JStr s # xs) =
     (case clean_each xs of Inl e \<Rightarrow> Inl e | Inr ys \<Rightarrow> Inr (clean s # ys))"
| "clean_each (_ # xs) = Inl AttributeError"

text \<open>
  \<open>soup.find('script', type='application/ld+json')\<close> is the first such tag; each of the
  three extraction blocks loads its string again, with the same result.
\<close>

definition loaded_block :: "ext \<Rightarrow> soup \<Rightarrow> json option" where
  "loaded_block X page = (case ld_json page of [] \<Rightarrow> None | s # _ \<Rightarrow> loads_script X s)"

definition extract_from_page :: "ext \<Rightarrow> string \<Rightarrow> soup \<Rightarrow> py_error + recipe_data" where
  "extract_from_page X url page =
     (let loaded = loaded_block X page
      in case ld_name loaded of
           Inl e \<Rightarrow> Inl e
         | Inr name0 \<Rightarrow>
             (let name1 = (if truthy name0 then name0
                           else (case h1 page of
                                   Some t \<Rightarrow> JStr (py_strip t)
                                 | None \<Rightarrow> (case og_title page of
                                              Some c \<Rightarrow> JStr (py_strip c)
                                            | None \<Rightarrow> name0)))
              in case ld_ingredients loaded of
                   Inl e \<Rightarrow> Inl e
                 | Inr ings0 \<Rightarrow>
                     (let ings1 = (if ings0 = [] then from_selectors (select_one page) ingredient_selectors
                                   else ings0)
                      in case ld_instructions loaded of
                           Inl e \<Rightarrow> Inl e
                         | Inr steps0 \<Rightarrow>
                             (let steps1 = (if steps0 = []
                                            then map JStr (from_selectors (select_one page) instruction_selectors)
                                            else steps0)
                              in case name1 of
                                   JStr n \<Rightarrow>
                                     (case clean_each steps1 of
                                        Inl e \<Rightarrow> Inl e
                                      | Inr steps2 \<Rightarrow>
                                          Inr \<lparr>rd_name = (if clean n = [] then ''Unknown Recipe Name''
                                                           else clean n),
                                               rd_ingredients = map clean ings1,
                                               rd_instructions = steps2,
                                               rd_source_url = url\<rparr>)
                                 | _ \<Rightarrow> Inl AttributeError))))"














section \<open>Example inputs\<close>

text \<open>
  What \<open>urlparse\<close>, \<open>urljoin\<close> and \<open>json.loads\<close> return on the URLs and payloads of
  the examples; the tables stand for the library on these inputs only.
\<close>

definition example_urlparse :: "string \<Rightarrow> urlparts" where
  "example_urlparse url =
     (if url = ''https://www.example.com/recipes/''
      then \<lparr>scheme = ''https'', netloc = ''www.example.com'', path = ''/recipes/''\<rparr>
      else if url = ''https://example.com/recipes/42-lemon-cake''
      then \<lparr>scheme = ''https'', netloc = ''example.com'', path = ''/recipes/42-lemon-cake''\<rparr>
      else if url = ''https://www.example.com/recipes/42-lemon-cake''
      then \<lparr>scheme = ''https'', netloc = ''www.example.com'', path = ''/recipes/42-lemon-cake''\<rparr>
      else if url = ''https://www.example.com/recipes/7-omelette''
      then \<lparr>scheme = ''https'', netloc = ''www.example.com'', path = ''/recipes/7-omelette''\<rparr>
      else if url = ''https://www.example.com/recipes/9-pancakes''
      then \<lparr>scheme = ''https'', netloc = ''www.example.com'', path = ''/recipes/9-pancakes''\<rparr>
      else if url = ''https://evil.test/recipe?from=www.example.com''
      then \<lparr>scheme = ''https'', netloc = ''evil.test'', path = ''/recipe''\<rparr>
      else \<lparr>scheme = [], netloc = [], path = url\<rparr>)"

definition example_urljoin :: "string \<Rightarrow> string \<Rightarrow> string" where
  "example_urljoin base h =
     (if base = ''https://www.example.com/recipes/'' \<and> startswith h ''/''
      then ''https://www.example.com'' @ h else h)"

definition lemon_ld :: string where
  \<open>lemon_ld = ''{"@type":"Recipe","name":"Lemon Cake","recipeIngredient":["200g flour","2 eggs"],"recipeInstructions":["Mix.","Bake."]}''\<close>

definition lemon_json :: json where
  "lemon_json = JObj [(''@type'', JStr ''Recipe''), (''name'', JStr ''Lemon Cake''),
                      (''recipeIngredient'', JArr [JStr ''200g flour'', JStr ''2 eggs'']),
                      (''recipeInstructions'', JArr [JStr ''Mix.'', JStr ''Bake.''])]"

text \<open>A Recipe block with ingredients and no instructions.\<close>

definition pancakes_ld :: string where
  \<open>pancakes_ld = ''{"@type":"Recipe","name":"Pancakes","recipeIngredient":["1 cup flour"]}''\<close>

definition pancakes_json :: json where
  "pancakes_json = JObj [(''@type'', JStr ''Recipe''), (''name'', JStr ''Pancakes''),
                         (''recipeIngredient'', JArr [JStr ''1 cup flour''])]"

text \<open>A Recipe block without a name, with a blank ingredient and a two-line step.\<close>

definition omelette_ld :: string where
  \<open>omelette_ld = ''{"@type":"Recipe","recipeIngredient":["  ","2 eggs"],"recipeInstructions":["Whisk.''
                    @ [CHR 0x5C] @ ''nFry."]}''\<close>

definition omelette_json :: json where
  "omelette_json = JObj [(''@type'', JStr ''Recipe''),
                         (''recipeIngredient'', JArr [JStr ''  '', JStr ''2 eggs'']),
                         (''recipeInstructions'', JArr [JStr [CHR ''W'', CHR ''h'', CHR ''i'', CHR ''s'',
                            CHR ''k'', CHR ''.'', CHR 0x0A, CHR ''F'', CHR ''r'', CHR ''y'', CHR ''.'']])]"

text \<open>A Recipe block whose ingredients are a number.\<close>

definition five_ld :: string where
  \<open>five_ld = ''{"@type":"Recipe","name":"Five","recipeIngredient":5}''\<close>

definition five_json :: json where
  "five_json = JObj [(''@type'', JStr ''Recipe''), (''name'', JStr ''Five''),
                     (''recipeIngredient'', JNum 5)]"

text \<open>A complete Recipe block whose name is a number.\<close>

definition egg_ld :: string where
  \<open>egg_ld = ''{"@type":"Recipe","name":5,"recipeIngredient":["1 egg"],"recipeInstructions":["Boil."]}''\<close>

definition egg_json :: json where
  "egg_json = JObj [(''@type'', JStr ''Recipe''), (''name'', JNum 5),
                    (''recipeIngredient'', JArr [JStr ''1 egg'']),
                    (''recipeInstructions'', JArr [JStr ''Boil.''])]"

definition example_loads :: "string \<Rightarrow> json option" where
  "example_loads s =
     (if s = lemon_ld then Some lemon_json
      else if s = pancakes_ld then Some pancakes_json
      else if s = omelette_ld then Some omelette_json
      else if s = five_ld then Some five_json
      else if s = egg_ld then Some egg_json
      else None)"

definition empty_page :: soup where
  "empty_page = \<lparr>a_tags = [], ld_json = [], h1 = None, og_title = None,
                 select_one = (\<lambda>sel. None), select_cards = (\<lambda>sel. [])\<rparr>"

text \<open>The seed page: one card with one link.\<close>

definition seed_page :: soup where
  "seed_page = empty_page
     \<lparr>a_tags := [\<lparr>href = ''/recipes/42-lemon-cake'', link_text = ''Lemon Cake''\<rparr>],
      select_cards := (\<lambda>sel. if sel = ''.card''
                              then [[\<lparr>href = ''/recipes/42-lemon-cake'', link_text = ''Lemon Cake''\<rparr>]]
                              else [])\<rparr>"

text \<open>An index page with three recipe links.\<close>

definition index_page :: soup where
  "index_page = empty_page
     \<lparr>a_tags := [\<lparr>href = ''/recipes/42-lemon-cake'', link_text = ''Lemon Cake''\<rparr>,
                 \<lparr>href = ''/recipes/7-omelette'', link_text = ''Omelette''\<rparr>,
                 \<lparr>href = ''/recipes/9-pancakes'', link_text = ''Pancakes''\<rparr>]\<rparr>"

text \<open>A page with a link to another site whose query string names this one.\<close>

definition lure_page :: soup where
  "lure_page = empty_page
     \<lparr>a_tags := [\<lparr>href = ''https://evil.test/recipe?from=www.example.com'', link_text = ''Win''\<rparr>],
      select_cards := (\<lambda>sel. if sel = ''.card''
                              then [[\<lparr>href = ''https://evil.test/recipe?from=www.example.com'',
                                      link_text = ''Win''\<rparr>]]
                              else [])\<rparr>"

definition lemon_page :: soup where
  "lemon_page = empty_page\<lparr>ld_json := [Some lemon_ld], h1 := Some ''Lemon Cake''\<rparr>"

text \<open>A broken block followed by a complete one.\<close>

definition two_block_page :: soup where
  \<open>two_block_page = empty_page\<lparr>ld_json := [Some ''{"name": '', Some lemon_ld]\<rparr>\<close>

text \<open>Structured ingredients only, and a container the instruction selectors match.\<close>

definition pancakes_page :: soup where
  "pancakes_page = empty_page
     \<lparr>ld_json := [Some pancakes_ld],
      select_one := (\<lambda>sel. if sel = ''.instructions''
                            then Some \<lparr>list_items = [''Stir the batter''], text_lines = ''Stir the batter''\<rparr>
                            else None)\<rparr>"

definition omelette_page :: soup where
  "omelette_page = empty_page\<lparr>ld_json := [Some omelette_ld]\<rparr>"


definition egg_page :: soup where
  "egg_page = empty_page\<lparr>ld_json := [Some egg_ld]\<rparr>"

text \<open>A page with a link whose authority opens a bracket and never closes it.\<close>

definition bracket_page :: soup where
  "bracket_page = empty_page\<lparr>a_tags := [\<lparr>href = ''//['', link_text = ''Broken''\<rparr>]\<rparr>"

definition example_get :: "string \<Rightarrow> real \<Rightarrow> real \<times> reply" where
  "example_get url t =
     (if url = ''https://www.example.com/recipes/''
      then (3 / 10, Response \<lparr>status_code = 200, content_type = Some ''text/html; charset=utf-8'',
                             html = seed_page\<rparr>)
      else if url = ''https://www.example.com/recipes/42-lemon-cake''
      then (3 / 10, Response \<lparr>status_code = 200, content_type = Some ''text/html; charset=utf-8'',
                             html = lemon_page\<rparr>)
      else (1 / 10, RequestException))"

definition example_site :: ext where
  "example_site = \<lparr>urlparse = example_urlparse, urljoin = example_urljoin,
                   json_loads = example_loads, requests_get = example_get,
                   urlparse_raises = (\<lambda>url. False), urljoin_raises = (\<lambda>base h. False),
                   list_of_set = (\<lambda>l. l)\<rparr>"

text \<open>The same site answering the seed URL with status 300 and the index page.\<close>

definition site_300 :: ext where
  "site_300 = example_site
     \<lparr>requests_get := (\<lambda>url t. (3 / 10, Response \<lparr>status_code = 300,
                           content_type = Some ''text/html'', html = index_page\<rparr>))\<rparr>"

text \<open>The site answering the seed URL with \<open>seed\<close> and every other URL with \<open>page\<close>.\<close>

definition site_serving :: "soup \<Rightarrow> soup \<Rightarrow> ext" where
  "site_serving seed page = example_site
     \<lparr>requests_get := (\<lambda>url t. (3 / 10, Response \<lparr>status_code = 200,
                           content_type = Some ''text/html'',
                           html = (if url = ''https://www.example.com/recipes/'' then seed
                                   else page)\<rparr>))\<rparr>"

text \<open>The same with the library as it is: \<open>urljoin\<close> rejects the bracket.\<close>

definition bracket_site :: ext where
  "bracket_site = (site_serving bracket_page empty_page)
     \<lparr>urljoin_raises := (\<lambda>base h. h = ''//['')\<rparr>"

text \<open>A network on which every GET fails after a tenth of a second.\<close>

definition net_down :: ext where
  "net_down = \<lparr>urlparse = example_urlparse, urljoin = example_urljoin, json_loads = example_loads,
               requests_get = (\<lambda>url t. (1 / 10, RequestException)),
               urlparse_raises = (\<lambda>url. False), urljoin_raises = (\<lambda>base h. False),
               list_of_set = (\<lambda>l. l)\<rparr>"

definition world0 :: world where
  "world0 = \<lparr>clock = 0, domain_timers = Map.empty, seen_urls = {}\<rparr>"

text \<open>Five seconds into a run that last reached \<open>example.com\<close> at second 4.\<close>

definition world5 :: world where
  "world5 = \<lparr>clock = 5, domain_timers = [''example.com'' \<mapsto> 4], seen_urls = {}\<rparr>"

text \<open>A network that answers every GET after a fifth of a second with an empty 404 page.\<close>

definition net_404 :: ext where
  "net_404 = \<lparr>urlparse = example_urlparse, urljoin = example_urljoin, json_loads = example_loads,
              requests_get = (\<lambda>url t. (1 / 5, Response \<lparr>status_code = 404,
                                content_type = Some ''text/html'', html = empty_page\<rparr>)),
              urlparse_raises = (\<lambda>url. False), urljoin_raises = (\<lambda>base h. False),
              list_of_set = (\<lambda>l. l)\<rparr>"

text \<open>What the example site gives.\<close>

definition lemon_recipe :: recipe where
  "lemon_recipe = \<lparr>source_url = ''https://www.example.com/recipes/42-lemon-cake'',
                    name = JStr ''Lemon Cake'',
                    ingredients = JArr [JStr ''200g flour'', JStr ''2 eggs''],
                    instructions = [JStr ''Mix.'', JStr ''Bake.'']\<rparr>"

definition world_after_run :: world where
  "world_after_run = \<lparr>clock = 13 / 5, domain_timers = [''example.com'' \<mapsto> 13 / 5],
                        seen_urls = {''https://www.example.com/recipes/42-lemon-cake''}\<rparr>"

definition world_after_scraper :: world where
  "world_after_scraper = \<lparr>clock = 21 / 10, domain_timers = [''www.example.com'' \<mapsto> 21 / 10],
                            seen_urls = {}\<rparr>"



section \<open>Properties\<close>

subsection \<open>The rate limiter\<close>

lemma rate_limit_wait_only_clock:
  "rate_limit_wait limit d w = w\<lparr>clock := clock (rate_limit_wait limit d w)\<rparr>"
  by (simp add: rate_limit_wait_def time_sleep_def Let_def split: option.splits)

lemma rate_limit_wait_clock:
  "clock (rate_limit_wait limit d w) =
     (case domain_timers w d of
        None \<Rightarrow> clock w
      | Some stamp \<Rightarrow> if clock w - stamp < limit then stamp + limit else clock w)"
  by (simp add: rate_limit_wait_def time_sleep_def Let_def split: option.splits)

lemma net_down_sel:
  "urlparse net_down = example_urlparse"
  "requests_get net_down url t = (1 / 10, RequestException)"
  by (simp_all add: net_down_def)

lemma net_404_sel:
  "urlparse net_404 = example_urlparse"
  "requests_get net_404 url t = (1 / 5, Response \<lparr>status_code = 404,
                                content_type = Some ''text/html'', html = empty_page\<rparr>)"
  by (simp_all add: net_404_def)

lemma normalize_domain_examples:
  "normalize_domain net_down ''https://www.example.com/recipes/'' = ''example.com''"
  "normalize_domain net_down ''https://example.com/recipes/42-lemon-cake'' = ''example.com''"
  "normalize_domain net_404 ''https://www.example.com/recipes/'' = ''example.com''"
  "normalize_domain net_404 ''https://example.com/recipes/42-lemon-cake'' = ''example.com''"
  by (simp_all add: normalize_domain_def net_down_sel net_404_sel example_urlparse_def py_lower_def
        lower_char_def latin1_capitals_def latin1_smalls_def startswith_def Let_def)

lemma netloc_examples:
  "netloc (example_urlparse ''https://www.example.com/recipes/'') = ''www.example.com''"
  by (simp add: example_urlparse_def)

lemma world5_sel:
  "domain_timers world5 = [''example.com'' \<mapsto> 4]" "clock world5 = 5"
  by (simp_all add: world5_def)

lemmas eval_request =
  http_get_def rate_limit_wait_def time_sleep_def world0_def world5_def RATE_LIMIT_scrapermod_def
  RATE_LIMIT_scraper_def raise_for_status_def Let_def normalize_domain_examples netloc_examples
  net_down_sel net_404_sel

lemma make_request_scrapermod_failed:
  assumes "fst (http_get X url (rate_limit_wait RATE_LIMIT_scrapermod (normalize_domain X url) w)) = RequestException"
  shows "\<exists>c. make_request_scrapermod X url w = (None, w\<lparr>clock := c\<rparr>)"
  using assms
  by (auto simp: make_request_scrapermod_def http_get_def Let_def rate_limit_wait_def time_sleep_def
        split: prod.splits reply.splits option.splits)

lemma make_request_scrapermod_replied:
  assumes "fst (http_get X url (rate_limit_wait RATE_LIMIT_scrapermod (normalize_domain X url) w)) = Response res"
  shows "domain_timers (snd (make_request_scrapermod X url w)) =
        (domain_timers w)(normalize_domain X url \<mapsto> clock (snd (make_request_scrapermod X url w)))"
  using assms
  by (auto simp: make_request_scrapermod_def http_get_def Let_def rate_limit_wait_def time_sleep_def
        split: prod.splits reply.splits option.splits)

lemma make_request_scraper_failed:
  assumes "fst (http_get X url (rate_limit_wait RATE_LIMIT_scraper (netloc (urlparse X url)) w)) = RequestException"
  shows "\<exists>c. make_request_scraper X url w = (None, w\<lparr>clock := c\<rparr>)"
  using assms
  by (auto simp: make_request_scraper_def http_get_def Let_def rate_limit_wait_def time_sleep_def
        split: prod.splits reply.splits option.splits)

lemma make_request_scraper_replied:
  assumes "fst (http_get X url (rate_limit_wait RATE_LIMIT_scraper (netloc (urlparse X url)) w)) = Response res"
  shows "domain_timers (snd (make_request_scraper X url w)) =
        (domain_timers w)(netloc (urlparse X url) \<mapsto> clock (snd (make_request_scraper X url w)))"
  using assms
  by (auto simp: make_request_scraper_def http_get_def Let_def rate_limit_wait_def time_sleep_def
        split: prod.splits reply.splits option.splits)

text \<open>
  Claim C10. The Host Timer State is written only after \<open>requests.get\<close> has returned a
  response. When the GET itself raises, \<open>make_request\<close> returns \<open>None\<close> and leaves
  the whole state as it was but for the clock, so a later request to any host waits exactly
  as long as if the failed request had not been made. When the GET returns a response,
  whatever its status or content type, the host's entry is set to the time the response
  arrived. Both hold for \<open>scrapermod.py\<close> (key: the normalized host) and for
  \<open>scraper.py\<close> (key: the netloc).
\<close>

theorem timer_written_only_after_response:
  "(fst (http_get X url (rate_limit_wait RATE_LIMIT_scrapermod (normalize_domain X url) w)) = RequestException \<longrightarrow>
      make_request_scrapermod X url w = (None, w\<lparr>clock := clock (snd (make_request_scrapermod X url w))\<rparr>)
      \<and> sent_at_scrapermod X url' ((snd (make_request_scrapermod X url w))\<lparr>clock := t\<rparr>)
          = sent_at_scrapermod X url' (w\<lparr>clock := t\<rparr>))
   \<and> (\<forall>res. fst (http_get X url (rate_limit_wait RATE_LIMIT_scrapermod (normalize_domain X url) w)) = Response res \<longrightarrow>
      domain_timers (snd (make_request_scrapermod X url w)) =
        (domain_timers w)(normalize_domain X url \<mapsto> clock (snd (make_request_scrapermod X url w))))
   \<and> (fst (http_get X url (rate_limit_wait RATE_LIMIT_scraper (netloc (urlparse X url)) w)) = RequestException \<longrightarrow>
      make_request_scraper X url w = (None, w\<lparr>clock := clock (snd (make_request_scraper X url w))\<rparr>)
      \<and> sent_at_scraper X url' ((snd (make_request_scraper X url w))\<lparr>clock := t\<rparr>)
          = sent_at_scraper X url' (w\<lparr>clock := t\<rparr>))
   \<and> (\<forall>res. fst (http_get X url (rate_limit_wait RATE_LIMIT_scraper (netloc (urlparse X url)) w)) = Response res \<longrightarrow>
      domain_timers (snd (make_request_scraper X url w)) =
        (domain_timers w)(netloc (urlparse X url) \<mapsto> clock (snd (make_request_scraper X url w))))"
proof (intro conjI impI allI)
  assume h: "fst (http_get X url (rate_limit_wait RATE_LIMIT_scrapermod (normalize_domain X url) w)) = RequestException"
  from make_request_scrapermod_failed [OF h]
  obtain c where c: "make_request_scrapermod X url w = (None, w\<lparr>clock := c\<rparr>)" ..
  show "make_request_scrapermod X url w = (None, w\<lparr>clock := clock (snd (make_request_scrapermod X url w))\<rparr>)"
    by (simp add: c)
  show "sent_at_scrapermod X url' ((snd (make_request_scrapermod X url w))\<lparr>clock := t\<rparr>)
          = sent_at_scrapermod X url' (w\<lparr>clock := t\<rparr>)"
    by (simp add: c)
next
  fix res
  assume "fst (http_get X url (rate_limit_wait RATE_LIMIT_scrapermod (normalize_domain X url) w)) = Response res"
  then show "domain_timers (snd (make_request_scrapermod X url w)) =
        (domain_timers w)(normalize_domain X url \<mapsto> clock (snd (make_request_scrapermod X url w)))"
    by (rule make_request_scrapermod_replied)
next
  assume h: "fst (http_get X url (rate_limit_wait RATE_LIMIT_scraper (netloc (urlparse X url)) w)) = RequestException"
  from make_request_scraper_failed [OF h]
  obtain c where c: "make_request_scraper X url w = (None, w\<lparr>clock := c\<rparr>)" ..
  show "make_request_scraper X url w = (None, w\<lparr>clock := clock (snd (make_request_scraper X url w))\<rparr>)"
    by (simp add: c)
  show "sent_at_scraper X url' ((snd (make_request_scraper X url w))\<lparr>clock := t\<rparr>)
          = sent_at_scraper X url' (w\<lparr>clock := t\<rparr>)"
    by (simp add: c)
next
  fix res
  assume "fst (http_get X url (rate_limit_wait RATE_LIMIT_scraper (netloc (urlparse X url)) w)) = Response res"
  then show "domain_timers (snd (make_request_scraper X url w)) =
        (domain_timers w)(netloc (urlparse X url) \<mapsto> clock (snd (make_request_scraper X url w)))"
    by (rule make_request_scraper_replied)
qed

theorem timer_written_only_after_response_witness:
  "fst (http_get net_down ''https://www.example.com/recipes/''
          (rate_limit_wait RATE_LIMIT_scrapermod
             (normalize_domain net_down ''https://www.example.com/recipes/'') world5)) = RequestException
   \<and> make_request_scrapermod net_down ''https://www.example.com/recipes/'' world5
       = (None, world5\<lparr>clock := 61 / 10\<rparr>)
   \<and> fst (http_get net_404 ''https://www.example.com/recipes/''
          (rate_limit_wait RATE_LIMIT_scrapermod
             (normalize_domain net_404 ''https://www.example.com/recipes/'') world5))
       = Response \<lparr>status_code = 404, content_type = Some ''text/html'', html = empty_page\<rparr>
   \<and> domain_timers (snd (make_request_scrapermod net_404 ''https://www.example.com/recipes/'' world5))
       = [''example.com'' \<mapsto> 31 / 5]
   \<and> make_request_scraper net_down ''https://www.example.com/recipes/'' world5
       = (None, world5\<lparr>clock := 51 / 10\<rparr>)
   \<and> domain_timers (snd (make_request_scraper net_404 ''https://www.example.com/recipes/'' world5))
       = [''example.com'' \<mapsto> 4, ''www.example.com'' \<mapsto> 26 / 5]"
proof -
  let ?u = "''https://www.example.com/recipes/''"
  note T1 = timer_written_only_after_response [of net_down ?u world5 ?u 0]
  note T2 = timer_written_only_after_response [of net_404 ?u world5 ?u 0]
  have h1: "fst (http_get net_down ?u (rate_limit_wait RATE_LIMIT_scrapermod (normalize_domain net_down ?u) world5)) = RequestException"
    by (simp add: eval_request)
  have h2: "fst (http_get net_404 ?u (rate_limit_wait RATE_LIMIT_scrapermod (normalize_domain net_404 ?u) world5))
       = Response \<lparr>status_code = 404, content_type = Some ''text/html'', html = empty_page\<rparr>"
    by (simp add: eval_request)
  have h3: "fst (http_get net_down ?u (rate_limit_wait RATE_LIMIT_scraper (netloc (urlparse net_down ?u)) world5)) = RequestException"
    by (simp add: eval_request)
  have h4: "fst (http_get net_404 ?u (rate_limit_wait RATE_LIMIT_scraper (netloc (urlparse net_404 ?u)) world5))
       = Response \<lparr>status_code = 404, content_type = Some ''text/html'', html = empty_page\<rparr>"
    by (simp add: eval_request)
  have c1: "clock (snd (make_request_scrapermod net_down ?u world5)) = 61 / 10"
    by (simp add: make_request_scrapermod_def eval_request)
  have c2: "clock (snd (make_request_scrapermod net_404 ?u world5)) = 31 / 5"
    by (simp add: make_request_scrapermod_def eval_request)
  have c3: "clock (snd (make_request_scraper net_down ?u world5)) = 51 / 10"
    by (simp add: make_request_scraper_def eval_request)
  have c4: "clock (snd (make_request_scraper net_404 ?u world5)) = 26 / 5"
    by (simp add: make_request_scraper_def eval_request)
  have a: "make_request_scrapermod net_down ?u world5 = (None, world5\<lparr>clock := 61 / 10\<rparr>)"
    using T1 [THEN conjunct1, rule_format, OF h1, THEN conjunct1] by (simp only: c1)
  have b: "domain_timers (snd (make_request_scrapermod net_404 ?u world5)) = [''example.com'' \<mapsto> 31 / 5]"
    using T2 [THEN conjunct2, THEN conjunct1, rule_format, OF h2]
    by (simp add: c2 normalize_domain_examples world5_sel)
  have c: "make_request_scraper net_down ?u world5 = (None, world5\<lparr>clock := 51 / 10\<rparr>)"
    using T1 [THEN conjunct2, THEN conjunct2, THEN conjunct1, rule_format, OF h3, THEN conjunct1]
    by (simp only: c3)
  have d: "domain_timers (snd (make_request_scraper net_404 ?u world5))
       = [''example.com'' \<mapsto> 4, ''www.example.com'' \<mapsto> 26 / 5]"
    using T2 [THEN conjunct2, THEN conjunct2, THEN conjunct2, rule_format, OF h4]
    by (simp add: c4 net_404_sel netloc_examples world5_sel)
  from h1 a h2 b c d show ?thesis by (intro conjI)
qed

lemma rate_limit_wait_other_host:
  "d' \<noteq> d \<Longrightarrow>
   clock (rate_limit_wait limit d (w\<lparr>domain_timers := (domain_timers w)(d' \<mapsto> t)\<rparr>))
     = clock (rate_limit_wait limit d w)"
  by (simp add: rate_limit_wait_clock split: option.splits)

lemma rate_limit_wait_stamped:
  "domain_timers w d = Some stamp \<Longrightarrow>
   clock (rate_limit_wait limit d w) = max (clock w) (stamp + limit)"
  by (auto simp: rate_limit_wait_clock max_def)

lemma rate_limit_wait_unknown_host:
  "domain_timers w d = None \<Longrightarrow> clock (rate_limit_wait limit d w) = clock w"
  by (simp add: rate_limit_wait_clock)

text \<open>
  Claim C6, as amended. If the request to \<open>u1\<close> got a response, at time \<open>t1\<close>, then the
  next request to the same host, called in any later state \<open>w'\<close> whose entry for that host is
  still the one that request wrote, issues its GET at \<open>max (clock w') (t1 + RATE_LIMIT)\<close>:
  the caller sleeps for the remaining delta and the GET leaves no earlier than
  \<open>RATE_LIMIT\<close> after the response. The entries of other hosts never change that time, and a
  host without an entry is not delayed at all. The key is the normalized host in
  \<open>scrapermod.py\<close> and the netloc as written in \<open>scraper.py\<close>. Nothing is promised
  after a request whose GET raised: it leaves no timestamp (claim C10).
\<close>

theorem rate_limit_after_response:
  "(normalize_domain X u2 = normalize_domain X u1
     \<and> fst (http_get X u1 (rate_limit_wait RATE_LIMIT_scrapermod (normalize_domain X u1) w)) = Response res
     \<and> domain_timers w' (normalize_domain X u1)
         = domain_timers (snd (make_request_scrapermod X u1 w)) (normalize_domain X u1)
    \<longrightarrow> sent_at_scrapermod X u2 w'
          = max (clock w') (clock (snd (make_request_scrapermod X u1 w)) + RATE_LIMIT_scrapermod)
      \<and> clock (snd (make_request_scrapermod X u1 w)) + RATE_LIMIT_scrapermod
          \<le> sent_at_scrapermod X u2 w')
   \<and> (netloc (urlparse X u2) = netloc (urlparse X u1)
     \<and> fst (http_get X u1 (rate_limit_wait RATE_LIMIT_scraper (netloc (urlparse X u1)) w)) = Response res
     \<and> domain_timers w' (netloc (urlparse X u1))
         = domain_timers (snd (make_request_scraper X u1 w)) (netloc (urlparse X u1))
    \<longrightarrow> sent_at_scraper X u2 w'
          = max (clock w') (clock (snd (make_request_scraper X u1 w)) + RATE_LIMIT_scraper)
      \<and> clock (snd (make_request_scraper X u1 w)) + RATE_LIMIT_scraper \<le> sent_at_scraper X u2 w')
   \<and> (\<forall>d t. d \<noteq> normalize_domain X u2 \<longrightarrow>
         sent_at_scrapermod X u2 (w'\<lparr>domain_timers := (domain_timers w')(d \<mapsto> t)\<rparr>)
           = sent_at_scrapermod X u2 w')
   \<and> (\<forall>d t. d \<noteq> netloc (urlparse X u2) \<longrightarrow>
         sent_at_scraper X u2 (w'\<lparr>domain_timers := (domain_timers w')(d \<mapsto> t)\<rparr>)
           = sent_at_scraper X u2 w')
   \<and> (domain_timers w' (normalize_domain X u2) = None \<longrightarrow> sent_at_scrapermod X u2 w' = clock w')
   \<and> (domain_timers w' (netloc (urlparse X u2)) = None \<longrightarrow> sent_at_scraper X u2 w' = clock w')"
proof (intro conjI impI allI)
  assume h: "normalize_domain X u2 = normalize_domain X u1
     \<and> fst (http_get X u1 (rate_limit_wait RATE_LIMIT_scrapermod (normalize_domain X u1) w)) = Response res
     \<and> domain_timers w' (normalize_domain X u1)
         = domain_timers (snd (make_request_scrapermod X u1 w)) (normalize_domain X u1)"
  from h have "domain_timers w' (normalize_domain X u1)
      = Some (clock (snd (make_request_scrapermod X u1 w)))"
    by (simp add: make_request_scrapermod_replied [of X u1 w res])
  with h have st: "domain_timers w' (normalize_domain X u2)
      = Some (clock (snd (make_request_scrapermod X u1 w)))"
    by simp
  show eq: "sent_at_scrapermod X u2 w'
          = max (clock w') (clock (snd (make_request_scrapermod X u1 w)) + RATE_LIMIT_scrapermod)"
    unfolding sent_at_scrapermod_def by (rule rate_limit_wait_stamped [OF st])
  show "clock (snd (make_request_scrapermod X u1 w)) + RATE_LIMIT_scrapermod
          \<le> sent_at_scrapermod X u2 w'"
    unfolding eq by simp
next
  assume h: "netloc (urlparse X u2) = netloc (urlparse X u1)
     \<and> fst (http_get X u1 (rate_limit_wait RATE_LIMIT_scraper (netloc (urlparse X u1)) w)) = Response res
     \<and> domain_timers w' (netloc (urlparse X u1))
         = domain_timers (snd (make_request_scraper X u1 w)) (netloc (urlparse X u1))"
  from h have "domain_timers w' (netloc (urlparse X u1))
      = Some (clock (snd (make_request_scraper X u1 w)))"
    by (simp add: make_request_scraper_replied [of X u1 w res])
  with h have st: "domain_timers w' (netloc (urlparse X u2))
      = Some (clock (snd (make_request_scraper X u1 w)))"
    by simp
  show eq: "sent_at_scraper X u2 w'
          = max (clock w') (clock (snd (make_request_scraper X u1 w)) + RATE_LIMIT_scraper)"
    unfolding sent_at_scraper_def by (rule rate_limit_wait_stamped [OF st])
  show "clock (snd (make_request_scraper X u1 w)) + RATE_LIMIT_scraper \<le> sent_at_scraper X u2 w'"
    unfolding eq by simp
next
  fix d t assume "d \<noteq> normalize_domain X u2"
  then show "sent_at_scrapermod X u2 (w'\<lparr>domain_timers := (domain_timers w')(d \<mapsto> t)\<rparr>)
           = sent_at_scrapermod X u2 w'"
    unfolding sent_at_scrapermod_def by (rule rate_limit_wait_other_host)
next
  fix d t assume "d \<noteq> netloc (urlparse X u2)"
  then show "sent_at_scraper X u2 (w'\<lparr>domain_timers := (domain_timers w')(d \<mapsto> t)\<rparr>)
           = sent_at_scraper X u2 w'"
    unfolding sent_at_scraper_def by (rule rate_limit_wait_other_host)
next
  assume "domain_timers w' (normalize_domain X u2) = None"
  then show "sent_at_scrapermod X u2 w' = clock w'"
    unfolding sent_at_scrapermod_def by (rule rate_limit_wait_unknown_host)
next
  assume "domain_timers w' (netloc (urlparse X u2)) = None"
  then show "sent_at_scraper X u2 w' = clock w'"
    unfolding sent_at_scraper_def by (rule rate_limit_wait_unknown_host)
qed

lemma world0_sel:
  "domain_timers world0 = Map.empty" "clock world0 = 0"
  by (simp_all add: world0_def)

lemma make_request_404_examples:
  "snd (make_request_scrapermod net_404 ''https://www.example.com/recipes/'' world5)
     = \<lparr>clock = 31 / 5, domain_timers = [''example.com'' \<mapsto> 31 / 5], seen_urls = {}\<rparr>"
  "snd (make_request_scraper net_404 ''https://www.example.com/recipes/'' world5)
     = \<lparr>clock = 26 / 5, domain_timers = [''example.com'' \<mapsto> 4, ''www.example.com'' \<mapsto> 26 / 5],
         seen_urls = {}\<rparr>"
  by (simp_all add: make_request_scrapermod_def make_request_scraper_def eval_request)

theorem rate_limit_after_response_witness:
  "sent_at_scrapermod net_404 ''https://example.com/recipes/42-lemon-cake''
      (snd (make_request_scrapermod net_404 ''https://www.example.com/recipes/'' world5)) = 41 / 5
   \<and> clock (snd (make_request_scrapermod net_404 ''https://www.example.com/recipes/'' world5))
        + RATE_LIMIT_scrapermod
      \<le> sent_at_scrapermod net_404 ''https://example.com/recipes/42-lemon-cake''
          (snd (make_request_scrapermod net_404 ''https://www.example.com/recipes/'' world5))
   \<and> sent_at_scraper net_404 ''https://www.example.com/recipes/''
      (snd (make_request_scraper net_404 ''https://www.example.com/recipes/'' world5)) = 67 / 10
   \<and> sent_at_scrapermod net_404 ''https://example.com/recipes/42-lemon-cake''
        (world5\<lparr>domain_timers := (domain_timers world5)(''other.org'' \<mapsto> 5)\<rparr>)
      = sent_at_scrapermod net_404 ''https://example.com/recipes/42-lemon-cake'' world5
   \<and> sent_at_scraper net_404 ''https://www.example.com/recipes/''
        (world5\<lparr>domain_timers := (domain_timers world5)(''other.org'' \<mapsto> 5)\<rparr>)
      = sent_at_scraper net_404 ''https://www.example.com/recipes/'' world5
   \<and> sent_at_scrapermod net_404 ''https://example.com/recipes/42-lemon-cake'' world0 = 0
   \<and> sent_at_scraper net_404 ''https://www.example.com/recipes/'' world5 = 5"
proof -
  let ?u1 = "''https://www.example.com/recipes/''"
  let ?u2 = "''https://example.com/recipes/42-lemon-cake''"
  let ?res = "\<lparr>status_code = 404, content_type = Some ''text/html'', html = empty_page\<rparr>"
  let ?w1 = "snd (make_request_scrapermod net_404 ?u1 world5)"
  let ?w2 = "snd (make_request_scraper net_404 ?u1 world5)"
  have h1: "normalize_domain net_404 ?u2 = normalize_domain net_404 ?u1
     \<and> fst (http_get net_404 ?u1 (rate_limit_wait RATE_LIMIT_scrapermod (normalize_domain net_404 ?u1) world5))
         = Response ?res
     \<and> domain_timers ?w1 (normalize_domain net_404 ?u1)
         = domain_timers (snd (make_request_scrapermod net_404 ?u1 world5)) (normalize_domain net_404 ?u1)"
    by (simp add: eval_request)
  have h2: "netloc (urlparse net_404 ?u1) = netloc (urlparse net_404 ?u1)
     \<and> fst (http_get net_404 ?u1 (rate_limit_wait RATE_LIMIT_scraper (netloc (urlparse net_404 ?u1)) world5))
         = Response ?res
     \<and> domain_timers ?w2 (netloc (urlparse net_404 ?u1))
         = domain_timers (snd (make_request_scraper net_404 ?u1 world5)) (netloc (urlparse net_404 ?u1))"
    by (simp add: eval_request)
  have h3: "''other.org'' \<noteq> normalize_domain net_404 ?u2"
    by (simp add: eval_request)
  have h4: "''other.org'' \<noteq> netloc (urlparse net_404 ?u1)"
    by (simp add: eval_request)
  have h5: "domain_timers world0 (normalize_domain net_404 ?u2) = None"
    by (simp add: world0_sel)
  have h6: "domain_timers world5 (netloc (urlparse net_404 ?u1)) = None"
    by (simp add: eval_request world5_sel)
  note A = rate_limit_after_response [of net_404 ?u2 ?u1 world5 ?res ?w1,
             THEN conjunct1, rule_format, OF h1]
  note B = rate_limit_after_response [of net_404 ?u1 ?u1 world5 ?res ?w2,
             THEN conjunct2, THEN conjunct1, rule_format, OF h2]
  note C = rate_limit_after_response [of net_404 ?u2 ?u1 world5 ?res world5,
             THEN conjunct2, THEN conjunct2, THEN conjunct1, rule_format, OF h3, of 5]
  note D = rate_limit_after_response [of net_404 ?u1 ?u1 world5 ?res world5,
             THEN conjunct2, THEN conjunct2, THEN conjunct2, THEN conjunct1, rule_format, OF h4, of 5]
  note E = rate_limit_after_response [of net_404 ?u2 ?u1 world5 ?res world0,
             THEN conjunct2, THEN conjunct2, THEN conjunct2, THEN conjunct2, THEN conjunct1,
             rule_format, OF h5]
  note F = rate_limit_after_response [of net_404 ?u1 ?u1 world5 ?res world5,
             THEN conjunct2, THEN conjunct2, THEN conjunct2, THEN conjunct2, THEN conjunct2,
             rule_format, OF h6]
  have a: "sent_at_scrapermod net_404 ?u2 ?w1 = 41 / 5"
    using A [THEN conjunct1] by (simp add: make_request_404_examples RATE_LIMIT_scrapermod_def)
  have b: "sent_at_scraper net_404 ?u1 ?w2 = 67 / 10"
    using B [THEN conjunct1] by (simp add: make_request_404_examples RATE_LIMIT_scraper_def)
  have e: "sent_at_scrapermod net_404 ?u2 world0 = 0"
    using E by (simp add: world0_sel)
  have f: "sent_at_scraper net_404 ?u1 world5 = 5"
    using F by (simp add: world5_sel)
  from a A [THEN conjunct2] b C D e f show ?thesis by (intro conjI)
qed

text \<open>
  Claim C6 as stated fails: on a network where the GET raises after a tenth of a second,
  the second request to the host is sent a tenth of a second after the first.
\<close>

theorem rate_limit_after_failure_counterexample:
  "normalize_domain net_down ''https://example.com/recipes/42-lemon-cake''
     = normalize_domain net_down ''https://www.example.com/recipes/''
   \<and> sent_at_scrapermod net_down ''https://www.example.com/recipes/'' world0 = 0
   \<and> fst (make_request_scrapermod net_down ''https://www.example.com/recipes/'' world0) = None
   \<and> sent_at_scrapermod net_down ''https://example.com/recipes/42-lemon-cake''
        (snd (make_request_scrapermod net_down ''https://www.example.com/recipes/'' world0)) = 1 / 10
   \<and> (1 / 10 :: real) - 0 < RATE_LIMIT_scrapermod"
  by (simp add: sent_at_scrapermod_def make_request_scrapermod_def eval_request)

subsection \<open>The example site, evaluated\<close>

lemma example_site_sel:
  "urlparse example_site = example_urlparse"
  "urljoin example_site = example_urljoin"
  "json_loads example_site = example_loads"
  "requests_get example_site = example_get"
  "urlparse_raises example_site = (\<lambda>url. False)"
  "urljoin_raises example_site = (\<lambda>base h. False)"
  "list_of_set example_site = (\<lambda>l. l)"
  by (simp_all add: example_site_def)

lemma example_urls:
  "example_urlparse ''https://www.example.com/recipes/''
     = \<lparr>scheme = ''https'', netloc = ''www.example.com'', path = ''/recipes/''\<rparr>"
  "example_urlparse ''https://www.example.com/recipes/42-lemon-cake''
     = \<lparr>scheme = ''https'', netloc = ''www.example.com'', path = ''/recipes/42-lemon-cake''\<rparr>"
  "example_urlparse ''https://www.example.com/recipes/7-omelette''
     = \<lparr>scheme = ''https'', netloc = ''www.example.com'', path = ''/recipes/7-omelette''\<rparr>"
  "example_urlparse ''https://www.example.com/recipes/9-pancakes''
     = \<lparr>scheme = ''https'', netloc = ''www.example.com'', path = ''/recipes/9-pancakes''\<rparr>"
  "example_urlparse ''https://evil.test/recipe?from=www.example.com''
     = \<lparr>scheme = ''https'', netloc = ''evil.test'', path = ''/recipe''\<rparr>"
  by (simp_all add: example_urlparse_def)

lemma normalize_www: "py_lower ''www.example.com'' = ''www.example.com''"
  by (simp add: py_lower_def lower_char_def latin1_capitals_def latin1_smalls_def)

lemma normalize_domain_site:
  "normalize_domain example_site ''https://www.example.com/recipes/'' = ''example.com''"
  "normalize_domain example_site ''https://www.example.com/recipes/42-lemon-cake'' = ''example.com''"
  "normalize_domain example_site ''https://www.example.com/recipes/7-omelette'' = ''example.com''"
  "normalize_domain example_site ''https://www.example.com/recipes/9-pancakes'' = ''example.com''"
  by (simp_all add: normalize_domain_def example_site_sel example_urls normalize_www startswith_def Let_def)

lemma html_content_type:
  "contains (py_lower ''text/html; charset=utf-8'') ''text/html''"
  by (simp add: py_lower_def lower_char_def latin1_capitals_def latin1_smalls_def startswith_def)

lemma example_get_seed:
  "example_get ''https://www.example.com/recipes/'' t
     = (3 / 10, Response \<lparr>status_code = 200, content_type = Some ''text/html; charset=utf-8'',
                             html = seed_page\<rparr>)"
  "example_get ''https://www.example.com/recipes/42-lemon-cake'' t
     = (3 / 10, Response \<lparr>status_code = 200, content_type = Some ''text/html; charset=utf-8'',
                             html = lemon_page\<rparr>)"
  by (simp_all add: example_get_def)

lemma make_request_seed:
  "make_request_scrapermod example_site ''https://www.example.com/recipes/'' world0
     = (Some \<lparr>status_code = 200, content_type = Some ''text/html; charset=utf-8'', html = seed_page\<rparr>,
        \<lparr>clock = 3 / 10, domain_timers = [''example.com'' \<mapsto> 3 / 10], seen_urls = {}\<rparr>)"
  by (simp add: make_request_scrapermod_def normalize_domain_site http_get_def rate_limit_wait_def
        example_site_sel example_get_seed world0_def raise_for_status_def html_content_type Let_def)

lemma strip_hrefs:
  "py_strip ''/recipes/42-lemon-cake'' = ''/recipes/42-lemon-cake''"
  "py_strip ''/recipes/7-omelette'' = ''/recipes/7-omelette''"
  "py_strip ''/recipes/9-pancakes'' = ''/recipes/9-pancakes''"
  by (simp_all add: py_strip_def isspace_def)

lemma join_hrefs:
  "example_urljoin ''https://www.example.com/recipes/'' ''/recipes/42-lemon-cake''
     = ''https://www.example.com/recipes/42-lemon-cake''"
  "example_urljoin ''https://www.example.com/recipes/'' ''/recipes/7-omelette''
     = ''https://www.example.com/recipes/7-omelette''"
  "example_urljoin ''https://www.example.com/recipes/'' ''/recipes/9-pancakes''
     = ''https://www.example.com/recipes/9-pancakes''"
  by (simp_all add: example_urljoin_def startswith_def)

lemma recipe_paths:
  "list_ex (contains (py_lower ''/recipes/42-lemon-cake'')) recipe_keywords"
  "list_ex (contains (py_lower ''/recipes/7-omelette'')) recipe_keywords"
  "list_ex (contains (py_lower ''/recipes/9-pancakes'')) recipe_keywords"
  by (simp_all add: recipe_keywords_def py_lower_def lower_char_def latin1_capitals_def latin1_smalls_def startswith_def)

lemmas eval_links =
  strip_hrefs join_hrefs recipe_paths normalize_domain_site example_site_sel example_urls
  startswith_def Let_def

lemma get_links_loop_seed:
  "get_links_loop example_site ''https://www.example.com/recipes/'' 10 (a_tags seed_page) [] {}
     = (Inr [''https://www.example.com/recipes/42-lemon-cake''],
        {''https://www.example.com/recipes/42-lemon-cake''})"
  by (simp add: seed_page_def eval_links)

lemma get_links_seed:
  "get_links_scrapermod example_site ''https://www.example.com/recipes/'' 10 world0
     = (Inr [''https://www.example.com/recipes/42-lemon-cake''],
        \<lparr>clock = 3 / 10, domain_timers = [''example.com'' \<mapsto> 3 / 10],
          seen_urls = {''https://www.example.com/recipes/42-lemon-cake''}\<rparr>)"
  by (simp add: get_links_scrapermod_def request_scrapermod_def make_request_seed
        get_links_loop_seed example_site_sel)

lemma strip_lemon_ld: "py_strip lemon_ld = lemon_ld"
  by (simp add: py_strip_def isspace_def lemon_ld_def)

lemma loads_lemon: "example_loads lemon_ld = Some lemon_json"
  by (simp add: example_loads_def)

lemma lemon_not_comment: "\<not> startswith lemon_ld ''<!--''"
  by (simp add: startswith_def lemon_ld_def)

lemma script_items_lemon: "script_items example_site (Some lemon_ld) = Inr [lemon_json]"
  by (simp add: script_items_def strip_lemon_ld lemon_not_comment loads_lemon example_site_sel
        lemon_json_def Let_def)

lemma items_loop_lemon:
  "items_loop [lemon_json] (empty_recipe url)
     = Return \<lparr>source_url = url, name = JStr ''Lemon Cake'',
                ingredients = JArr [JStr ''200g flour'', JStr ''2 eggs''],
                instructions = [JStr ''Mix.'', JStr ''Bake.'']\<rparr>"
  by (simp add: lemon_json_def empty_recipe_def read_item_def dict_get_def instructions_of_def Let_def)

lemma parse_recipe_page_lemon:
  "parse_recipe_page example_site url lemon_page
     = Some \<lparr>source_url = url, name = JStr ''Lemon Cake'',
              ingredients = JArr [JStr ''200g flour'', JStr ''2 eggs''],
              instructions = [JStr ''Mix.'', JStr ''Bake.'']\<rparr>"
  by (simp add: parse_recipe_page_def lemon_page_def empty_page_def script_items_lemon items_loop_lemon)

lemma parse_recipe_scrapermod_lemon:
  "parse_recipe_scrapermod example_site ''https://www.example.com/recipes/42-lemon-cake''
      \<lparr>clock = 3 / 10, domain_timers = [''example.com'' \<mapsto> 3 / 10],
        seen_urls = {''https://www.example.com/recipes/42-lemon-cake''}\<rparr>
     = (Inr (Some lemon_recipe), world_after_run)"
  by (simp add: parse_recipe_scrapermod_def request_scrapermod_def
        make_request_scrapermod_def normalize_domain_site
        http_get_def rate_limit_wait_def time_sleep_def RATE_LIMIT_scrapermod_def
        example_site_sel example_get_seed raise_for_status_def html_content_type Let_def
        parse_recipe_page_lemon lemon_recipe_def world_after_run_def)

lemma sites_loop_scrapermod_example:
  "0 < cap \<Longrightarrow>
   sites_loop_scrapermod example_site 10 cap [''https://www.example.com/recipes/''] [] world0
     = ([lemon_recipe], world_after_run)"
  by (simp add: try_site_scrapermod_def get_links_seed parse_recipe_scrapermod_lemon
        lemon_recipe_def sliceable_def)


lemma get_links_scraper_seed:
  "get_links_scraper example_site ''https://www.example.com/recipes/'' 10 world0
     = (Inr [''https://www.example.com/recipes/42-lemon-cake''],
        \<lparr>clock = 3 / 10, domain_timers = [''www.example.com'' \<mapsto> 3 / 10], seen_urls = {}\<rparr>)"
  by (simp add: get_links_scraper_def request_scraper_def make_request_scraper_def http_get_def
        rate_limit_wait_def
        example_site_sel example_urls example_get_seed world0_def raise_for_status_def Let_def
        seed_page_def startswith_def py_lower_def lower_char_def latin1_capitals_def latin1_smalls_def)

lemma read_script_scraper_lemon:
  "read_script_scraper example_site (Some lemon_ld) (empty_recipe url)
     = Inr \<lparr>source_url = url, name = JStr ''Lemon Cake'',
             ingredients = JArr [JStr ''200g flour'', JStr ''2 eggs''],
             instructions = [JStr ''Mix.'', JStr ''Bake.'']\<rparr>"
  by (simp add: read_script_scraper_def strip_lemon_ld loads_lemon example_site_sel lemon_json_def
        empty_recipe_def dict_get_def)

lemma parse_recipe_scraper_lemon:
  "parse_recipe_scraper example_site ''https://www.example.com/recipes/42-lemon-cake''
      \<lparr>clock = 3 / 10, domain_timers = [''www.example.com'' \<mapsto> 3 / 10], seen_urls = {}\<rparr>
     = (Inr (Some lemon_recipe), world_after_scraper)"
  by (simp add: parse_recipe_scraper_def request_scraper_def make_request_scraper_def http_get_def
        rate_limit_wait_def
        time_sleep_def RATE_LIMIT_scraper_def example_site_sel example_urls example_get_seed
        raise_for_status_def Let_def parse_recipe_page_scraper_def lemon_page_def empty_page_def
        read_script_scraper_lemon lemon_recipe_def world_after_scraper_def)

lemma sites_loop_scraper_example:
  "sites_loop_scraper example_site 10 cap [''https://www.example.com/recipes/''] [] world0
     = ([lemon_recipe], world_after_scraper)"
  by (simp add: try_site_scraper_def get_links_scraper_seed parse_recipe_scraper_lemon Let_def)


lemmas eval_strings =
  startswith_def py_lower_def lower_char_def latin1_capitals_def latin1_smalls_def py_strip_def isspace_def clean_def replace_newlines_def





subsection \<open>Invariants of the main loops\<close>

lemma links_loop_scrapermod_inv:
  assumes "P acc"
    and step: "\<And>acc r url w w'. P acc \<Longrightarrow> length acc < cap \<Longrightarrow>
                 parse_recipe_scrapermod X url w = (Inr (Some r), w') \<Longrightarrow> P (acc @ [r])"
  shows "P (fst (fst (links_loop_scrapermod X cap links acc w)))"
  using assms(1)
proof (induction links arbitrary: acc w)
  case Nil
  then show ?case by simp
next
  case (Cons link links)
  show ?case
  proof (cases "cap \<le> length acc")
    case True
    with Cons.prems show ?thesis by simp
  next
    case False
    obtain res w1 where p: "parse_recipe_scrapermod X link w = (res, w1)"
      by (cases "parse_recipe_scrapermod X link w")
    show ?thesis
    proof (cases res)
      case (Inl e)
      with Cons.prems False p show ?thesis by simp
    next
      case (Inr found)
      show ?thesis
      proof (cases found)
        case None
        with Cons.IH [OF Cons.prems, of w1] False p Inr show ?thesis by simp
      next
        case (Some r)
        from False have "length acc < cap" by simp
        from step [OF Cons.prems this p [unfolded Inr Some]] have "P (acc @ [r])" .
        with Cons.IH [OF this, of w1] False p Inr Some show ?thesis by simp
      qed
    qed
  qed
qed

lemma try_site_scrapermod_inv:
  assumes "P acc"
    and step: "\<And>acc r url w w'. P acc \<Longrightarrow> length acc < cap \<Longrightarrow>
                 parse_recipe_scrapermod X url w = (Inr (Some r), w') \<Longrightarrow> P (acc @ [r])"
  shows "P (fst (fst (try_site_scrapermod X per_site cap site acc w)))"
proof -
  obtain res w1 where g: "get_links_scrapermod X site per_site w = (res, w1)"
    by (cases "get_links_scrapermod X site per_site w")
  show ?thesis
  proof (cases res)
    case (Inl e)
    with g assms(1) show ?thesis by (simp add: try_site_scrapermod_def)
  next
    case (Inr links)
    have "P (fst (fst (links_loop_scrapermod X cap links acc w1)))"
      using assms(1) step by (rule links_loop_scrapermod_inv)
    with g Inr assms(1) show ?thesis
      by (auto simp: try_site_scrapermod_def split: prod.splits option.splits)
  qed
qed

lemma sites_loop_scrapermod_inv:
  assumes "P acc"
    and step: "\<And>acc r url w w'. P acc \<Longrightarrow> length acc < cap \<Longrightarrow>
                 parse_recipe_scrapermod X url w = (Inr (Some r), w') \<Longrightarrow> P (acc @ [r])"
  shows "P (fst (sites_loop_scrapermod X per_site cap sites acc w))"
  using assms(1)
proof (induction sites arbitrary: acc w)
  case Nil
  then show ?case by simp
next
  case (Cons site sites)
  obtain acc' w1 ended where t: "try_site_scrapermod X per_site cap site acc w = ((acc', w1), ended)"
    by (cases "try_site_scrapermod X per_site cap site acc w") auto
  have "P (fst (fst (try_site_scrapermod X per_site cap site acc w)))"
    using Cons.prems step by (rule try_site_scrapermod_inv)
  with t have v: "P acc'" by simp
  show ?case
    using t v Cons.IH [OF v] by (cases ended) simp_all
qed

lemma links_loop_scraper_inv:
  assumes "P acc"
    and step: "\<And>acc r url w w'. P acc \<Longrightarrow> length acc < cap \<Longrightarrow>
                 parse_recipe_scraper X url w = (Inr (Some r), w') \<Longrightarrow> P (acc @ [r])"
    and "length acc < cap"
  shows "P (fst (fst (links_loop_scraper X cap links acc w)))"
  using assms(1,3)
proof (induction links arbitrary: acc w)
  case Nil
  then show ?case by simp
next
  case (Cons link links)
  obtain res w1 where p: "parse_recipe_scraper X link w = (res, w1)"
    by (cases "parse_recipe_scraper X link w")
  show ?case
  proof (cases res)
    case (Inl e)
    with Cons.prems p show ?thesis by simp
  next
    case (Inr found)
    show ?thesis
    proof (cases found)
      case None
      with Cons.IH [OF Cons.prems, of w1] Cons.prems p Inr show ?thesis by simp
    next
      case (Some r)
      from step [OF Cons.prems p [unfolded Inr Some]] have v: "P (acc @ [r])" .
      show ?thesis
      proof (cases "cap \<le> length (acc @ [r])")
        case True
        with v p Inr Some show ?thesis by simp
      next
        case False
        then have "length (acc @ [r]) < cap" by simp
        from Cons.IH [OF v this, of w1] False p Inr Some show ?thesis by simp
      qed
    qed
  qed
qed

lemma try_site_scraper_inv:
  assumes "P acc"
    and step: "\<And>acc r url w w'. P acc \<Longrightarrow> length acc < cap \<Longrightarrow>
                 parse_recipe_scraper X url w = (Inr (Some r), w') \<Longrightarrow> P (acc @ [r])"
    and "length acc < cap"
  shows "P (fst (fst (try_site_scraper X per_site cap site acc w)))"
proof -
  obtain res w1 where g: "get_links_scraper X site per_site w = (res, w1)"
    by (cases "get_links_scraper X site per_site w")
  show ?thesis
  proof (cases res)
    case (Inl e)
    with g assms(1) show ?thesis by (simp add: try_site_scraper_def)
  next
    case (Inr links)
    have "P (fst (fst (links_loop_scraper X cap links acc w1)))"
      using assms by (rule links_loop_scraper_inv)
    with g Inr show ?thesis
      by (auto simp: try_site_scraper_def split: prod.splits option.splits)
  qed
qed

lemma sites_loop_scraper_inv:
  assumes "P acc"
    and step: "\<And>acc r url w w'. P acc \<Longrightarrow> length acc < cap \<Longrightarrow>
                 parse_recipe_scraper X url w = (Inr (Some r), w') \<Longrightarrow> P (acc @ [r])"
    and "length acc < cap"
  shows "P (fst (sites_loop_scraper X per_site cap sites acc w))"
  using assms(1,3)
proof (induction sites arbitrary: acc w)
  case Nil
  then show ?case by simp
next
  case (Cons site sites)
  obtain acc' w1 ended where t: "try_site_scraper X per_site cap site acc w = ((acc', w1), ended)"
    by (cases "try_site_scraper X per_site cap site acc w") auto
  have "P (fst (fst (try_site_scraper X per_site cap site acc w)))"
    using Cons.prems(1) step Cons.prems(2) by (rule try_site_scraper_inv)
  with t have v: "P acc'" by simp
  show ?case
  proof (cases "cap \<le> length acc'")
    case True
    with t v show ?thesis by simp
  next
    case False
    then have "length acc' < cap" by simp
    from Cons.IH [OF v this, of w1] t False show ?thesis by simp
  qed
qed

subsection \<open>Records with content\<close>

lemma items_loop_Return:
  "items_loop items r = Return r' \<Longrightarrow> truthy (ingredients r') \<and> instructions r' \<noteq> []"
  by (induction items r rule: items_loop.induct) (auto simp: Let_def split: if_splits)

lemma scripts_loop_Some:
  "scripts_loop X ss r = Some r' \<Longrightarrow> truthy (ingredients r') \<and> instructions r' \<noteq> []"
  by (induction X ss r rule: scripts_loop.induct)
     (auto split: sum.splits flow.splits dest: items_loop_Return)


















subsection \<open>The global cap\<close>

lemma sites_loop_scrapermod_length:
  "length (fst (sites_loop_scrapermod X per_site cap sites [] w)) \<le> cap"
  by (rule sites_loop_scrapermod_inv) simp_all

lemma sites_loop_scraper_length:
  "0 < cap \<Longrightarrow> length (fst (sites_loop_scraper X per_site cap sites [] w)) \<le> cap"
  by (rule sites_loop_scraper_inv) simp_all

lemma links_loop_scrapermod_at_cap:
  "cap \<le> length acc \<Longrightarrow> links_loop_scrapermod X cap links acc w = ((acc, w), None)"
  by (cases links) simp_all

lemma links_loop_scrapermod_stops:
  "cap \<le> length (fst (fst (links_loop_scrapermod X cap l1 acc w))) \<Longrightarrow>
   links_loop_scrapermod X cap (l1 @ l2) acc w = links_loop_scrapermod X cap l1 acc w"
proof (induction l1 arbitrary: acc w)
  case Nil
  then show ?case by (simp add: links_loop_scrapermod_at_cap)
next
  case (Cons link l1)
  show ?case
  proof (cases "cap \<le> length acc")
    case True
    then show ?thesis by simp
  next
    case False
    obtain res w1 where p: "parse_recipe_scrapermod X link w = (res, w1)"
      by (cases "parse_recipe_scrapermod X link w")
    show ?thesis
    proof (cases res)
      case (Inl e)
      with False p show ?thesis by simp
    next
      case (Inr found)
      show ?thesis
      proof (cases found)
        case None
        with Cons.prems False p Inr
        have "cap \<le> length (fst (fst (links_loop_scrapermod X cap l1 acc w1)))" by simp
        from Cons.IH [OF this] False p Inr None show ?thesis by simp
      next
        case (Some r)
        show ?thesis
        proof (cases "sliceable (name r)")
          case True
          with Cons.prems False p Inr Some
          have "cap \<le> length (fst (fst (links_loop_scrapermod X cap l1 (acc @ [r]) w1)))" by simp
          from Cons.IH [OF this] False p Inr Some True show ?thesis by simp
        next
          case n: False
          with False p Inr Some show ?thesis by simp
        qed
      qed
    qed
  qed
qed

lemma try_site_scrapermod_Continued:
  "try_site_scrapermod X per_site cap site acc w = ((acc', w1), Continued) \<Longrightarrow> acc' = acc"
  by (auto simp: try_site_scrapermod_def split: prod.splits sum.splits if_splits option.splits)

lemma sites_loop_scrapermod_stops:
  "length acc < cap \<Longrightarrow>
   cap \<le> length (fst (sites_loop_scrapermod X per_site cap s1 acc w)) \<Longrightarrow>
   sites_loop_scrapermod X per_site cap (s1 @ s2) acc w
     = sites_loop_scrapermod X per_site cap s1 acc w"
proof (induction s1 arbitrary: acc w)
  case Nil
  then show ?case by simp
next
  case (Cons site s1)
  obtain acc' w1 ended where t: "try_site_scrapermod X per_site cap site acc w = ((acc', w1), ended)"
    by (cases "try_site_scrapermod X per_site cap site acc w") auto
  show ?case
  proof (cases ended)
    case Continued
    with t have "acc' = acc" by (auto dest: try_site_scrapermod_Continued)
    with Cons.prems t Continued
    have "cap \<le> length (fst (sites_loop_scrapermod X per_site cap s1 acc w1))" by simp
    from Cons.IH [OF Cons.prems(1) this] t Continued \<open>acc' = acc\<close> show ?thesis by simp
  next
    case Completed
    show ?thesis
    proof (cases "cap \<le> length acc'")
      case True
      with t Completed show ?thesis by simp
    next
      case False
      with Cons.prems t Completed
      have "cap \<le> length (fst (sites_loop_scrapermod X per_site cap s1 acc' w1))" by simp
      moreover from False have "length acc' < cap" by simp
      ultimately show ?thesis using Cons.IH [of acc' w1] t Completed False by simp
    qed
  next
    case (Raised e)
    show ?thesis
    proof (cases "cap \<le> length acc'")
      case True
      with t Raised show ?thesis by simp
    next
      case False
      with Cons.prems t Raised
      have "cap \<le> length (fst (sites_loop_scrapermod X per_site cap s1 acc' (time_sleep 5 w1)))"
        by simp
      moreover from False have "length acc' < cap" by simp
      ultimately show ?thesis using Cons.IH [of acc' "time_sleep 5 w1"] t Raised False by simp
    qed
  qed
qed

lemma links_loop_scraper_stops:
  "length acc < cap \<Longrightarrow>
   cap \<le> length (fst (fst (links_loop_scraper X cap l1 acc w))) \<Longrightarrow>
   links_loop_scraper X cap (l1 @ l2) acc w = links_loop_scraper X cap l1 acc w"
proof (induction l1 arbitrary: acc w)
  case Nil
  then show ?case by simp
next
  case (Cons link l1)
  obtain res w1 where p: "parse_recipe_scraper X link w = (res, w1)"
    by (cases "parse_recipe_scraper X link w")
  show ?case
  proof (cases res)
    case (Inl e)
    with p show ?thesis by simp
  next
    case (Inr found)
    define acc' where "acc' = (case found of None \<Rightarrow> acc | Some r \<Rightarrow> acc @ [r])"
    show ?thesis
    proof (cases "cap \<le> length acc'")
      case True
      with p Inr show ?thesis by (simp add: acc'_def Let_def)
    next
      case c: False
      with Cons.prems p Inr
      have "cap \<le> length (fst (fst (links_loop_scraper X cap l1 acc' w1)))"
        by (simp add: acc'_def Let_def)
      moreover from c have "length acc' < cap" by simp
      ultimately show ?thesis using Cons.IH [of acc' w1] p c Inr by (simp add: acc'_def Let_def)
    qed
  qed
qed

lemma sites_loop_scraper_stops:
  "length acc < cap \<Longrightarrow>
   cap \<le> length (fst (sites_loop_scraper X per_site cap s1 acc w)) \<Longrightarrow>
   sites_loop_scraper X per_site cap (s1 @ s2) acc w = sites_loop_scraper X per_site cap s1 acc w"
proof (induction s1 arbitrary: acc w)
  case Nil
  then show ?case by simp
next
  case (Cons site s1)
  obtain acc' w1 ended where t: "try_site_scraper X per_site cap site acc w = ((acc', w1), ended)"
    by (cases "try_site_scraper X per_site cap site acc w") auto
  show ?case
  proof (cases "cap \<le> length acc'")
    case True
    with t show ?thesis by simp
  next
    case c: False
    with Cons.prems t
    have "cap \<le> length (fst (sites_loop_scraper X per_site cap s1 acc' w1))" by simp
    moreover from c have "length acc' < cap" by simp
    ultimately show ?thesis using Cons.IH [of acc' w1] t c by simp
  qed
qed

text \<open>
  Claim C3. With a positive cap the accumulated list never grows beyond it, in
  \<open>scrapermod.py\<close> and in \<open>scraper.py\<close>, whatever the sites answer and whichever
  exceptions end the work on a site; once a run over some sites (or some links of a site)
  has reached the cap, any further sites (links) leave its result and its state, clock
  and timers included, as they are: no request is made for them. \<open>main\<close> is the instance
  with the cap 500.
\<close>

theorem global_cap:
  assumes "0 < cap"
  shows
  "length (fst (sites_loop_scrapermod X per_site cap sites [] w)) \<le> cap
   \<and> length (fst (sites_loop_scraper X per_site cap sites [] w)) \<le> cap
   \<and> (cap \<le> length (fst (sites_loop_scrapermod X per_site cap sites [] w)) \<longrightarrow>
        sites_loop_scrapermod X per_site cap (sites @ more_sites) [] w
          = sites_loop_scrapermod X per_site cap sites [] w)
   \<and> (cap \<le> length (fst (sites_loop_scraper X per_site cap sites [] w)) \<longrightarrow>
        sites_loop_scraper X per_site cap (sites @ more_sites) [] w
          = sites_loop_scraper X per_site cap sites [] w)
   \<and> (length acc < cap \<and> cap \<le> length (fst (fst (links_loop_scrapermod X cap links acc w'))) \<longrightarrow>
        links_loop_scrapermod X cap (links @ more_links) acc w'
          = links_loop_scrapermod X cap links acc w')
   \<and> (length acc < cap \<and> cap \<le> length (fst (fst (links_loop_scraper X cap links acc w'))) \<longrightarrow>
        links_loop_scraper X cap (links @ more_links) acc w'
          = links_loop_scraper X cap links acc w')
   \<and> length (fst (main_scrapermod X sites w)) \<le> MAX_TOTAL_RECIPES
   \<and> length (fst (main_scraper X sites w)) \<le> MAX_TOTAL_RECIPES"
proof (intro conjI impI)
  show "length (fst (sites_loop_scrapermod X per_site cap sites [] w)) \<le> cap"
    by (rule sites_loop_scrapermod_length)
  show "length (fst (sites_loop_scraper X per_site cap sites [] w)) \<le> cap"
    using assms by (rule sites_loop_scraper_length)
  show "length (fst (main_scrapermod X sites w)) \<le> MAX_TOTAL_RECIPES"
    unfolding main_scrapermod_def by (rule sites_loop_scrapermod_length)
  show "length (fst (main_scraper X sites w)) \<le> MAX_TOTAL_RECIPES"
    unfolding main_scraper_def by (rule sites_loop_scraper_length) (simp add: MAX_TOTAL_RECIPES_def)
next
  assume "cap \<le> length (fst (sites_loop_scrapermod X per_site cap sites [] w))"
  with assms show "sites_loop_scrapermod X per_site cap (sites @ more_sites) [] w
          = sites_loop_scrapermod X per_site cap sites [] w"
    by (intro sites_loop_scrapermod_stops) simp_all
next
  assume "cap \<le> length (fst (sites_loop_scraper X per_site cap sites [] w))"
  with assms show "sites_loop_scraper X per_site cap (sites @ more_sites) [] w
          = sites_loop_scraper X per_site cap sites [] w"
    by (intro sites_loop_scraper_stops) simp_all
next
  assume "length acc < cap \<and> cap \<le> length (fst (fst (links_loop_scrapermod X cap links acc w')))"
  then show "links_loop_scrapermod X cap (links @ more_links) acc w'
          = links_loop_scrapermod X cap links acc w'"
    by (intro links_loop_scrapermod_stops) simp
next
  assume "length acc < cap \<and> cap \<le> length (fst (fst (links_loop_scraper X cap links acc w')))"
  then show "links_loop_scraper X cap (links @ more_links) acc w'
          = links_loop_scraper X cap links acc w'"
    by (intro links_loop_scraper_stops) simp_all
qed

lemma links_loop_examples:
  "links_loop_scrapermod example_site 1 [''https://www.example.com/recipes/42-lemon-cake''] []
      \<lparr>clock = 3 / 10, domain_timers = [''example.com'' \<mapsto> 3 / 10],
        seen_urls = {''https://www.example.com/recipes/42-lemon-cake''}\<rparr>
     = (([lemon_recipe], world_after_run), None)"
  "links_loop_scraper example_site 1 [''https://www.example.com/recipes/42-lemon-cake''] []
      \<lparr>clock = 3 / 10, domain_timers = [''www.example.com'' \<mapsto> 3 / 10], seen_urls = {}\<rparr>
     = (([lemon_recipe], world_after_scraper), None)"
  by (simp_all add: parse_recipe_scrapermod_lemon parse_recipe_scraper_lemon Let_def
        lemon_recipe_def sliceable_def)

theorem global_cap_witness:
  "(0::nat) < 1
   \<and> sites_loop_scrapermod example_site 10 1 [''https://www.example.com/recipes/''] [] world0
       = ([lemon_recipe], world_after_run)
   \<and> length (fst (sites_loop_scrapermod example_site 10 1 [''https://www.example.com/recipes/''] [] world0)) \<le> 1
   \<and> length (fst (sites_loop_scraper example_site 10 1 [''https://www.example.com/recipes/''] [] world0)) \<le> 1
   \<and> sites_loop_scrapermod example_site 10 1
         ([''https://www.example.com/recipes/''] @ [''https://www.example.com/recipes/'']) [] world0
       = ([lemon_recipe], world_after_run)
   \<and> sites_loop_scraper example_site 10 1
         ([''https://www.example.com/recipes/''] @ [''https://www.example.com/recipes/'']) [] world0
       = ([lemon_recipe], world_after_scraper)
   \<and> links_loop_scrapermod example_site 1
         ([''https://www.example.com/recipes/42-lemon-cake'']
            @ [''https://www.example.com/recipes/42-lemon-cake'']) []
         \<lparr>clock = 3 / 10, domain_timers = [''example.com'' \<mapsto> 3 / 10],
           seen_urls = {''https://www.example.com/recipes/42-lemon-cake''}\<rparr>
       = (([lemon_recipe], world_after_run), None)
   \<and> links_loop_scraper example_site 1
         ([''https://www.example.com/recipes/42-lemon-cake'']
            @ [''https://www.example.com/recipes/42-lemon-cake'']) []
         \<lparr>clock = 3 / 10, domain_timers = [''www.example.com'' \<mapsto> 3 / 10], seen_urls = {}\<rparr>
       = (([lemon_recipe], world_after_scraper), None)"
proof -
  let ?s = "[''https://www.example.com/recipes/'']"
  let ?l = "[''https://www.example.com/recipes/42-lemon-cake'']"
  let ?w1 = "\<lparr>clock = 3 / 10, domain_timers = [''example.com'' \<mapsto> 3 / 10],
           seen_urls = {''https://www.example.com/recipes/42-lemon-cake''}\<rparr>"
  let ?w2 = "\<lparr>clock = 3 / 10, domain_timers = [''www.example.com'' \<mapsto> 3 / 10], seen_urls = {}\<rparr>"
  have pos: "(0::nat) < 1" by simp
  note T1 = global_cap [OF pos, of example_site 10 ?s world0 ?s "[]" ?l ?w1 ?l]
  note T2 = global_cap [OF pos, of example_site 10 ?s world0 ?s "[]" ?l ?w2 ?l]
  have a: "sites_loop_scrapermod example_site 10 1 ?s [] world0 = ([lemon_recipe], world_after_run)"
    by (rule sites_loop_scrapermod_example) simp
  have b: "sites_loop_scraper example_site 10 1 ?s [] world0 = ([lemon_recipe], world_after_scraper)"
    by (rule sites_loop_scraper_example)
  have h1: "1 \<le> length (fst (sites_loop_scrapermod example_site 10 1 ?s [] world0))"
    unfolding a by simp
  have h2: "1 \<le> length (fst (sites_loop_scraper example_site 10 1 ?s [] world0))"
    unfolding b by simp
  have h3: "length ([]::recipe list) < 1
      \<and> 1 \<le> length (fst (fst (links_loop_scrapermod example_site 1 ?l [] ?w1)))"
    unfolding links_loop_examples by simp
  have h4: "length ([]::recipe list) < 1
      \<and> 1 \<le> length (fst (fst (links_loop_scraper example_site 1 ?l [] ?w2)))"
    unfolding links_loop_examples by simp
  note c1 = T1 [THEN conjunct1]
  note c2 = T1 [THEN conjunct2, THEN conjunct1]
  note c3 = T1 [THEN conjunct2, THEN conjunct2, THEN conjunct1, rule_format, OF h1, unfolded a]
  note c4 = T1 [THEN conjunct2, THEN conjunct2, THEN conjunct2, THEN conjunct1, rule_format, OF h2,
                unfolded b]
  note c5 = T1 [THEN conjunct2, THEN conjunct2, THEN conjunct2, THEN conjunct2, THEN conjunct1,
                rule_format, OF h3, unfolded links_loop_examples]
  note c6 = T2 [THEN conjunct2, THEN conjunct2, THEN conjunct2, THEN conjunct2, THEN conjunct2,
                THEN conjunct1, rule_format, OF h4, unfolded links_loop_examples]
  from pos a c1 c2 c3 c4 c5 c6 show ?thesis by (intro conjI)
qed

subsection \<open>Structured data and the selector fallback\<close>

lemma parse_recipe_page_Some:
  "parse_recipe_page X url page = Some r \<Longrightarrow> truthy (ingredients r) \<and> instructions r \<noteq> []"
  unfolding parse_recipe_page_def by (rule scripts_loop_Some)

lemma extract_from_page_fields:
  assumes "extract_from_page X url page = Inr rd"
      and "ld_ingredients (loaded_block X page) = Inr ings"
      and "ld_instructions (loaded_block X page) = Inr steps"
  shows "rd_ingredients rd
           = map clean (if ings = [] then from_selectors (select_one page) ingredient_selectors
                        else ings)"
    and "clean_each (if steps = []
                     then map JStr (from_selectors (select_one page) instruction_selectors)
                     else steps) = Inr (rd_instructions rd)"
  using assms
  by (auto simp: extract_from_page_def Let_def split: sum.splits json.splits if_splits)

text \<open>
  Claim C1, as amended. \<open>parse_recipe\<close> of \<open>scrapermod.py\<close> returns a record only if its
  ingredient value and its instruction list are both non-empty, and \<open>None\<close> otherwise: it
  has no heuristic path. \<open>extract_recipe_data\<close> falls back field by field: the record's
  ingredients are the structured list when that is non-empty and the list of the selector
  fallback otherwise, and so, independently, are its instructions (each string cleaned).
\<close>

theorem structured_result_gate:
  "(\<forall>r. parse_recipe_page X url page = Some r \<longrightarrow>
        truthy (ingredients r) \<and> instructions r \<noteq> [])
   \<and> (\<forall>rd ings steps.
        extract_from_page X url page = Inr rd
        \<and> ld_ingredients (loaded_block X page) = Inr ings
        \<and> ld_instructions (loaded_block X page) = Inr steps \<longrightarrow>
        rd_ingredients rd
          = map clean (if ings = [] then from_selectors (select_one page) ingredient_selectors
                       else ings)
        \<and> clean_each (if steps = []
                       then map JStr (from_selectors (select_one page) instruction_selectors)
                       else steps) = Inr (rd_instructions rd))"
  using parse_recipe_page_Some extract_from_page_fields by blast

lemma pancakes_block:
  "loaded_block example_site pancakes_page = Some pancakes_json"
  "ld_ingredients (Some pancakes_json) = Inr [''1 cup flour'']"
  "ld_instructions (Some pancakes_json) = Inr []"
  "ld_name (Some pancakes_json) = Inr (JStr ''Pancakes'')"
  by (simp_all add: loaded_block_def loads_script_def pancakes_page_def empty_page_def
        example_site_sel example_loads_def pancakes_ld_def lemon_ld_def pancakes_json_def
        ld_ingredients_def ld_instructions_def ld_name_def dict_get_def eval_strings)

lemma pancakes_selectors:
  "from_selectors (select_one pancakes_page) instruction_selectors = [''Stir the batter'']"
  by (simp add: pancakes_page_def empty_page_def instruction_selectors_def Let_def
        cong: let_weak_cong)

lemma extract_from_page_pancakes:
  "extract_from_page example_site ''https://www.example.com/recipes/9-pancakes'' pancakes_page
     = Inr \<lparr>rd_name = ''Pancakes'', rd_ingredients = [''1 cup flour''],
             rd_instructions = [''Stir the batter''],
             rd_source_url = ''https://www.example.com/recipes/9-pancakes''\<rparr>"
  by (simp add: extract_from_page_def pancakes_block pancakes_selectors eval_strings Let_def
        cong: let_weak_cong)

lemma parse_recipe_page_pancakes:
  "parse_recipe_page example_site ''https://www.example.com/recipes/9-pancakes'' pancakes_page = None"
  by (simp add: parse_recipe_page_def pancakes_page_def empty_page_def script_items_def
        example_site_sel example_loads_def pancakes_ld_def lemon_ld_def pancakes_json_def
        empty_recipe_def read_item_def instructions_of_def dict_get_def eval_strings Let_def
        cong: let_weak_cong)

lemma parse_recipe_page_scraper_pancakes:
  "parse_recipe_page_scraper example_site ''https://www.example.com/recipes/9-pancakes'' pancakes_page
     = Some \<lparr>source_url = ''https://www.example.com/recipes/9-pancakes'', name = JStr ''Pancakes'',
              ingredients = JArr [JStr ''1 cup flour''], instructions = []\<rparr>"
  by (simp add: parse_recipe_page_scraper_def pancakes_page_def empty_page_def
        read_script_scraper_def example_site_sel example_loads_def pancakes_ld_def lemon_ld_def
        pancakes_json_def empty_recipe_def dict_get_def eval_strings Let_def
        cong: let_weak_cong)

theorem structured_result_gate_witness:
  "parse_recipe_page example_site ''https://www.example.com/recipes/42-lemon-cake'' lemon_page
     = Some lemon_recipe
   \<and> truthy (ingredients lemon_recipe) \<and> instructions lemon_recipe \<noteq> []
   \<and> rd_ingredients \<lparr>rd_name = ''Pancakes'', rd_ingredients = [''1 cup flour''],
             rd_instructions = [''Stir the batter''],
             rd_source_url = ''https://www.example.com/recipes/9-pancakes''\<rparr>
       = map clean [''1 cup flour'']
   \<and> clean_each (map JStr (from_selectors (select_one pancakes_page) instruction_selectors))
       = Inr [''Stir the batter'']"
proof -
  let ?u = "''https://www.example.com/recipes/9-pancakes''"
  let ?rd = "\<lparr>rd_name = ''Pancakes'', rd_ingredients = [''1 cup flour''],
             rd_instructions = [''Stir the batter''], rd_source_url = ?u\<rparr>"
  have a: "parse_recipe_page example_site ''https://www.example.com/recipes/42-lemon-cake'' lemon_page
     = Some lemon_recipe"
    by (simp add: parse_recipe_page_lemon lemon_recipe_def)
  have h: "extract_from_page example_site ?u pancakes_page = Inr ?rd
        \<and> ld_ingredients (loaded_block example_site pancakes_page) = Inr [''1 cup flour'']
        \<and> ld_instructions (loaded_block example_site pancakes_page) = Inr []"
    by (simp add: extract_from_page_pancakes pancakes_block)
  note b = structured_result_gate [of example_site "''https://www.example.com/recipes/42-lemon-cake''"
             lemon_page, THEN conjunct1, rule_format, OF a]
  note c = structured_result_gate [of example_site ?u pancakes_page, THEN conjunct2, rule_format, OF h]
  from c have c1: "rd_ingredients ?rd = map clean [''1 cup flour'']" by simp
  from c have c2: "clean_each (map JStr (from_selectors (select_one pancakes_page) instruction_selectors))
       = Inr [''Stir the batter'']" by simp
  from a b c1 c2 show ?thesis by (intro conjI) simp_all
qed

text \<open>
  Claim C1 as stated fails: on a page whose Recipe block has ingredients and no instructions,
  \<open>extract_recipe_data\<close> returns the structured ingredients together with the instructions of
  the selector fallback, and \<open>parse_recipe\<close> of \<open>scraper.py\<close> returns the structured record
  with its empty instruction list.
\<close>

theorem partial_match_mixed_counterexample:
  "ld_ingredients (loaded_block example_site pancakes_page) = Inr [''1 cup flour'']
   \<and> ld_instructions (loaded_block example_site pancakes_page) = Inr []
   \<and> from_selectors (select_one pancakes_page) instruction_selectors = [''Stir the batter'']
   \<and> extract_from_page example_site ''https://www.example.com/recipes/9-pancakes'' pancakes_page
       = Inr \<lparr>rd_name = ''Pancakes'', rd_ingredients = [''1 cup flour''],
               rd_instructions = [''Stir the batter''],
               rd_source_url = ''https://www.example.com/recipes/9-pancakes''\<rparr>
   \<and> parse_recipe_page_scraper example_site ''https://www.example.com/recipes/9-pancakes'' pancakes_page
       = Some \<lparr>source_url = ''https://www.example.com/recipes/9-pancakes'', name = JStr ''Pancakes'',
                ingredients = JArr [JStr ''1 cup flour''], instructions = []\<rparr>"
  by (simp add: pancakes_block pancakes_selectors extract_from_page_pancakes
        parse_recipe_page_scraper_pancakes)

end
